theory Spec2Isabelle
  imports Main "HOL-Library.Word" "HOL-Library.Code_Target_Nat"
begin

unbundle bit_operations_syntax

section \<open>The Parquet reader: cpp/src/io/parquet/parquet_reader.cpp\<close>

text \<open>
  A shallow embedding of \<^verbatim>\<open>read_parquet\<close> and of the helpers it calls. The function
  is sequential host code that drives accelerator kernels; the embedding follows its
  blocks in order and threads the local variables and the \<^verbatim>\<open>parquet_state\<close> object
  through them.

  Conventions.
  \<^item> Everything the source takes from outside this file is a field of the record
    \<open>env\<close>: the footer parser (\<^verbatim>\<open>cp.read\<close>, \<^verbatim>\<open>cp.InitSchema\<close>), the
    kernels, the magic constant, the status that each \<^verbatim>\<open>GDF_TRY\<close> sees, and the
    content of freshly allocated memory.
  \<^item> A device array and its pinned host mirror are two lists; every
    \<^verbatim>\<open>cudaMemcpyAsync\<close> of the source is an assignment between them, and nothing else
    moves data from one to the other.
  \<^item> A pointer into an array is the index of the element it points to, \<open>None\<close> for
    \<^verbatim>\<open>nullptr\<close>. An array with a fill count (\<^verbatim>\<open>chunk_desc\<close> with \<^verbatim>\<open>num_chunks\<close>,
    \<^verbatim>\<open>chunk_map\<close>) is the list of its filled entries.
  \<^item> Counts and byte sizes are natural numbers, signed quantities are integers. The
    narrowing casts the source applies to values (\<^verbatim>\<open>static_cast<int32_t>\<close>,
    \<^verbatim>\<open>(uint32_t)\<close>, \<^verbatim>\<open>(int16_t)\<close>, \<^verbatim>\<open>(int)\<close>) are written out, and so is the
    32-bit arithmetic on null counts and on the sizes of the column buffers; sums of
    page and chunk counts are not reduced modulo the word size, so the theory speaks of
    reads whose page and chunk counts stay below \<open>2^31\<close>.
  \<^item> A read out of the bounds of an array and the exception of \<^verbatim>\<open>std::string::substr\<close>
    end the run with \<open>Abort\<close>.
  \<^item> The ghost field \<open>trace\<close> lists, in order, the parser calls, the allocations,
    the kernel launches and the diagnostic lines the run has produced.
  \<^item> Field names are those of the source; where two structures share a name the
    field carries a prefix for its structure (\<open>rg_\<close>, \<open>md_\<close>, \<open>cm_\<close>, \<open>cd_\<close>, \<open>st_\<close>,
    \<open>arg_\<close>, \<open>col_\<close>, \<open>kv_\<close>).
  \<^item> Column names are taken to be free of the NUL character, so that the C string
    \<^verbatim>\<open>col_name\<close> holds the whole name.
\<close>

subsection \<open>Enumerations\<close>

datatype gdf_error =
  GDF_SUCCESS | GDF_CUDA_ERROR | GDF_MEMORYMANAGER_ERROR | GDF_FILE_ERROR | GDF_DATASET_EMPTY

datatype gdf_dtype =
  GDF_invalid | GDF_INT8 | GDF_INT16 | GDF_INT32 | GDF_INT64 | GDF_FLOAT32 | GDF_FLOAT64
  | GDF_DATE32 | GDF_DATE64 | GDF_TIMESTAMP | GDF_CATEGORY | GDF_STRING

datatype gdf_time_unit = TIME_UNIT_NONE | TIME_UNIT_s | TIME_UNIT_ms | TIME_UNIT_us | TIME_UNIT_ns

type_synonym gdf_dtype_extra_info = gdf_time_unit

datatype Type =
  BOOLEAN | INT32 | INT64 | INT96 | FLOAT | DOUBLE | BYTE_ARRAY | FIXED_LEN_BYTE_ARRAY

datatype ConvertedType =
  UNKNOWN | UTF8 | MAP | MAP_KEY_VALUE | LIST | ENUM | DECIMAL | DATE | TIME_MILLIS
  | TIME_MICROS | TIMESTAMP_MILLIS | TIMESTAMP_MICROS | UINT_8 | UINT_16 | UINT_32 | UINT_64
  | INT_8 | INT_16 | INT_32 | INT_64 | JSON | BSON | INTERVAL

datatype Compression = UNCOMPRESSED | SNAPPY | GZIP | LZO | BROTLI | LZ4 | ZSTD

datatype fault = Out_of_range_thrown | Out_of_bounds_read

subsection \<open>File metadata (the structures the footer parser fills)\<close>

type_synonym byte = "8 word"

record SchemaElement =
  type :: Type
  converted_type :: ConvertedType
  type_length :: int
  max_definition_level :: int
  max_repetition_level :: int

record ColumnChunkMetaData =
  path_in_schema :: "string list"
  codec :: Compression
  total_compressed_size :: int
  cm_num_values :: int
  data_page_offset :: int
  dictionary_page_offset :: int

record ColumnChunk =
  meta_data :: ColumnChunkMetaData
  schema_idx :: int

record RowGroup =
  columns :: "ColumnChunk list"
  rg_num_rows :: int

record KeyValue =
  key :: string
  kv_value :: string

record FileMetaData =
  schema :: "SchemaElement list"
  row_groups :: "RowGroup list"
  md_num_rows :: int
  key_value_metadata :: "KeyValue list"

subsection \<open>Output columns, chunk descriptors, page records\<close>

record gdf_column =
  col_name :: string
  col_size :: int
  dtype :: gdf_dtype
  dtype_info :: gdf_dtype_extra_info
  null_count :: int
  data :: "nat option"
  valid :: "nat option"

datatype dev_ptr = Nullptr | In_chunk_data nat nat | In_decompressed_pages nat

record PageInfo =
  compressed_page_data :: dev_ptr
  uncompressed_page_size :: nat
  compressed_page_size :: nat
  num_values :: nat
  chunk_row :: int
  num_rows :: int
  chunk_idx :: int
  flags :: nat
  encoding :: nat
  valid_count :: int

record ColumnChunkDesc =
  compressed_data :: "byte list option"
  compressed_size :: int
  cd_num_values :: int
  start_row :: int
  cd_num_rows :: int
  max_def_level :: int
  max_rep_level :: int
  data_type :: "16 word"
  def_level_bits :: nat
  rep_level_bits :: nat
  num_data_pages :: nat
  num_dict_pages :: nat
  max_num_pages :: nat
  page_info :: "nat option"
  str_dict_index :: "nat option"
  valid_map_base :: "nat option"
  column_data_base :: "nat option"

record gpu_inflate_input_s =
  srcDevice :: dev_ptr
  srcSize :: nat
  dstDevice :: dev_ptr
  dstSize :: nat

record gpu_inflate_status_s =
  bytes_written :: nat
  status :: int
  reserved :: nat

subsection \<open>The environment of a run\<close>

datatype try_site =
  Try_alloc_chunks | Try_count_pages | Try_alloc_pages | Try_store_pages | Try_alloc_column_data

datatype region =
  Chunk_desc_dev | Chunk_desc_host | Page_index_dev | Page_index_host | Compressed_data
  | Inflate_in_host | Inflate_in_dev | Inflate_out_host | Inflate_out_dev
  | Decompressed_pages | Column_data | Column_valid | Str_dict_index

datatype kernel =
  K_DecodePageHeaders | K_gpuinflate | K_gpu_unsnap | K_BuildStringDictionaryIndex
  | K_DecodePageData

datatype event =
  Call_cp_read | Call_InitSchema | Alloc region nat | Launch kernel | Printed string
  | Printed_status nat int nat

text \<open>
  \<open>try_status\<close> is the status that the \<^verbatim>\<open>GDF_TRY\<close> at a site compares with
  \<^verbatim>\<open>GDF_SUCCESS\<close>. The macros \<^verbatim>\<open>RMM_TRY\<close> and \<^verbatim>\<open>CUDA_TRY\<close> are not part of this file,
  and \<^verbatim>\<open>alloc_chunks\<close>, \<^verbatim>\<open>alloc_pages\<close> and \<^verbatim>\<open>dispatch_chunk_op\<close> end without a return
  statement, so the source does not determine that value.
  \<open>uninitialized_host\<close> and \<open>uninitialized_dev\<close> give the content of a page record of
  \<^verbatim>\<open>cudaMallocHost\<close> and \<^verbatim>\<open>RMM_ALLOC\<close> memory before anything is written to it.
  Sizes in \<open>Alloc\<close> events count elements; for column buffers and the decompressed
  pages they count bytes.
\<close>

record env =
  PARQUET_MAGIC :: "32 word"
  cp_read :: "byte list \<Rightarrow> bool \<times> FileMetaData"
  cp_InitSchema :: "FileMetaData \<Rightarrow> bool \<times> FileMetaData"
  NumRequiredBits :: "nat \<Rightarrow> nat"
  try_status :: "try_site \<Rightarrow> gdf_error"
  uninitialized_host :: "nat \<Rightarrow> PageInfo"
  uninitialized_dev :: "nat \<Rightarrow> PageInfo"
  DecodePageHeaders ::
    "ColumnChunkDesc list \<Rightarrow> PageInfo list \<Rightarrow> ColumnChunkDesc list \<times> PageInfo list"
  gpuinflate :: "gpu_inflate_input_s list \<Rightarrow> gpu_inflate_status_s list \<Rightarrow> gpu_inflate_status_s list"
  gpu_unsnap :: "gpu_inflate_input_s list \<Rightarrow> gpu_inflate_status_s list \<Rightarrow> gpu_inflate_status_s list"
  DecodePageData :: "PageInfo list \<Rightarrow> ColumnChunkDesc list \<Rightarrow> int \<Rightarrow> PageInfo list"
  gdf_get_num_chars_bitmask :: "int \<Rightarrow> nat"
  get_column_byte_width :: "gdf_dtype \<Rightarrow> nat"
  sizeof_nvstrdesc_s :: nat

subsection \<open>Local variables of \<^verbatim>\<open>read_parquet\<close>\<close>

text \<open>
  \<open>size_t_vector\<close> is \<^verbatim>\<open>std::vector<size_t>\<close> with its storage: \<^verbatim>\<open>clear()\<close> resets
  the element count and leaves the storage as it is, and \<^verbatim>\<open>operator[]\<close> reads the
  storage without looking at the count. \<^verbatim>\<open>read_parquet\<close> depends on this: it clears
  \<^verbatim>\<open>col_indexes\<close> (line 458) and reads \<^verbatim>\<open>col_indexes[i]\<close> afterwards (line 462).
\<close>

record size_t_vector =
  storage :: "nat list"
  used :: nat

record pq_read_arg =
  source :: "byte list option"
  use_cols :: "string list option"
  arg_data :: "gdf_column list option"
  num_cols_out :: int
  num_rows_out :: int
  arg_index_col :: "int option"

record parquet_state =
  chunk_desc :: "ColumnChunkDesc list"
  chunk_desc_dev :: "ColumnChunkDesc list"
  page_index :: "PageInfo list"
  page_index_dev :: "PageInfo list"
  max_num_chunks :: int
  total_pages :: nat
  num_compressed_pages :: nat
  total_decompressed_size :: nat
  total_str_indices :: nat
  st_str_dict_index :: "nat option"
  decompressed_pages :: "nat option"

record locals =
  args :: pq_read_arg
  raw :: "byte list"
  file_md :: FileMetaData
  index_col_name :: string
  col_indexes :: size_t_vector
  cols :: "gdf_column list"
  num_columns :: nat
  l_num_rows :: int
  index_col :: int
  chunk_map :: "(ColumnChunk \<times> nat) list"
  state :: parquet_state
  trace :: "event list"

datatype flow = Continue locals | Return gdf_error locals | Abort fault locals

subsection \<open>Helpers\<close>

definition emit :: "event \<Rightarrow> locals \<Rightarrow> locals" where
  "emit ev c = c\<lparr>trace := trace c @ [ev]\<rparr>"

definition locals_of :: "flow \<Rightarrow> locals" where
  "locals_of f = (case f of Continue c \<Rightarrow> c | Return r c \<Rightarrow> c | Abort x c \<Rightarrow> c)"

text \<open>Sequencing: the next block runs only if the previous one fell through.\<close>

definition and_then :: "flow \<Rightarrow> (locals \<Rightarrow> flow) \<Rightarrow> flow" where
  "and_then f g = (case f of Continue c \<Rightarrow> g c | Return r c \<Rightarrow> Return r c | Abort x c \<Rightarrow> Abort x c)"

fun foreach :: "('a \<Rightarrow> locals \<Rightarrow> flow) \<Rightarrow> 'a list \<Rightarrow> locals \<Rightarrow> flow" where
  "foreach body [] c = Continue c"
| "foreach body (x # xs) c = and_then (body x c) (foreach body xs)"

text \<open>
  \<^verbatim>\<open>GDF_TRY(call)\<close>: the effects of the call have happened (\<open>c\<close>), and the function
  returns the status if it is not \<^verbatim>\<open>GDF_SUCCESS\<close>.
\<close>

definition GDF_TRY :: "gdf_error \<Rightarrow> locals \<Rightarrow> flow" where
  "GDF_TRY gdf_status c = (if gdf_status \<noteq> GDF_SUCCESS then Return gdf_status c else Continue c)"

text \<open>The narrowing casts.\<close>

definition to_int32 :: "int \<Rightarrow> int" where
  "to_int32 x = sint (word_of_int x :: 32 word)"

definition to_uint32 :: "int \<Rightarrow> int" where
  "to_uint32 x = uint (word_of_int x :: 32 word)"

definition to_int16 :: "int \<Rightarrow> int" where
  "to_int16 x = sint (word_of_int x :: 16 word)"

definition to_uint8 :: "nat \<Rightarrow> nat" where
  "to_uint8 x = x mod 256"

text \<open>The conversion of an \<^verbatim>\<open>int\<close> to \<^verbatim>\<open>size_t\<close>.\<close>

definition to_size_t :: "int \<Rightarrow> nat" where
  "to_size_t x = unat (word_of_int x :: 64 word)"

text \<open>
  A kernel or a copy writes into an array that already has its size: \<open>written_to new old\<close>
  is the array \<open>old\<close> after \<open>new\<close> has been written over it from the start.
\<close>

definition written_to :: "'a list \<Rightarrow> 'a list \<Rightarrow> 'a list" where
  "written_to new old = take (length old) new @ drop (length new) old"

text \<open>A bounds-checked view of \<open>n\<close> elements from index \<open>off\<close>.\<close>

definition elements_at :: "'a list \<Rightarrow> nat \<Rightarrow> nat \<Rightarrow> 'a list option" where
  "elements_at xs off n =
     (if n = 0 then Some []
      else if off + n \<le> length xs then Some (take n (drop off xs)) else None)"

definition schema_at :: "FileMetaData \<Rightarrow> int \<Rightarrow> SchemaElement option" where
  "schema_at md idx =
     (if 0 \<le> idx \<and> nat idx < length (schema md) then Some (schema md ! nat idx) else None)"

text \<open>\<^verbatim>\<open>std::vector<size_t>\<close>.\<close>

definition iota_vector :: "nat \<Rightarrow> size_t_vector" where
  "iota_vector n = \<lparr>storage = [0..<n], used = n\<rparr>"

definition clear :: "size_t_vector \<Rightarrow> size_t_vector" where
  "clear v = v\<lparr>used := 0\<rparr>"

definition push_back :: "nat \<Rightarrow> size_t_vector \<Rightarrow> size_t_vector" where
  "push_back x v =
     (if used v < length (storage v)
      then v\<lparr>storage := (storage v)[used v := x], used := Suc (used v)\<rparr>
      else v\<lparr>storage := take (used v) (storage v) @ [x], used := Suc (used v)\<rparr>)"

definition unchecked_at :: "size_t_vector \<Rightarrow> nat \<Rightarrow> nat option" where
  "unchecked_at v i = (if i < length (storage v) then Some (storage v ! i) else None)"

subsection \<open>\<^verbatim>\<open>LoadFile\<close>, \<^verbatim>\<open>to_dot_string\<close>, \<^verbatim>\<open>to_dtype\<close>, \<^verbatim>\<open>get_index_col\<close>\<close>

text \<open>
  The argument is what the file system holds under \<^verbatim>\<open>args->source\<close>: \<open>None\<close> when the
  file cannot be opened. A file of size 0 is refused.
\<close>

definition LoadFile :: "byte list option \<Rightarrow> byte list option" where
  "LoadFile input_file =
     (case input_file of
        None \<Rightarrow> None
      | Some bytes \<Rightarrow> if length bytes \<le> 0 then None else Some bytes)"

fun to_dot_string :: "string list \<Rightarrow> string" where
  "to_dot_string [] = []"
| "to_dot_string (p # ps) = fold (\<lambda>q s. s @ ''.'' @ q) ps p"

definition to_dtype :: "Type \<Rightarrow> ConvertedType \<Rightarrow> gdf_dtype \<times> gdf_dtype_extra_info" where
  "to_dtype physical logical =
     (case logical of
        UINT_8 \<Rightarrow> (GDF_INT8, TIME_UNIT_NONE)
      | INT_8 \<Rightarrow> (GDF_INT8, TIME_UNIT_NONE)
      | UINT_16 \<Rightarrow> (GDF_INT16, TIME_UNIT_NONE)
      | INT_16 \<Rightarrow> (GDF_INT16, TIME_UNIT_NONE)
      | DATE \<Rightarrow> (GDF_DATE32, TIME_UNIT_NONE)
      | TIMESTAMP_MILLIS \<Rightarrow> (GDF_DATE64, TIME_UNIT_ms)
      | TIMESTAMP_MICROS \<Rightarrow> (GDF_DATE64, TIME_UNIT_us)
      | _ \<Rightarrow>
        (case physical of
           BOOLEAN \<Rightarrow> (GDF_INT8, TIME_UNIT_NONE)
         | INT32 \<Rightarrow> (GDF_INT32, TIME_UNIT_NONE)
         | INT64 \<Rightarrow> (GDF_INT64, TIME_UNIT_NONE)
         | FLOAT \<Rightarrow> (GDF_FLOAT32, TIME_UNIT_NONE)
         | DOUBLE \<Rightarrow> (GDF_FLOAT64, TIME_UNIT_NONE)
         | BYTE_ARRAY \<Rightarrow> (GDF_STRING, TIME_UNIT_NONE)
         | FIXED_LEN_BYTE_ARRAY \<Rightarrow> (GDF_STRING, TIME_UNIT_NONE)
         | INT96 \<Rightarrow> (GDF_invalid, TIME_UNIT_NONE)))"

text \<open>
  \<^verbatim>\<open>std::string::find\<close> and \<^verbatim>\<open>substr\<close> on \<^verbatim>\<open>size_t\<close> positions; \<open>npos\<close> is the
  all-ones word. \<^verbatim>\<open>substr\<close> throws \<^verbatim>\<open>std::out_of_range\<close> when the position lies
  beyond the end of the string.
\<close>

definition npos :: "64 word" where
  "npos = - 1"

definition str_find :: "string \<Rightarrow> string \<Rightarrow> 64 word \<Rightarrow> 64 word" where
  "str_find s needle pos =
     (case List.find (\<lambda>i. take (length needle) (drop i s) = needle)
             [unat pos ..< Suc (length s - length needle)] of
        None \<Rightarrow> npos
      | Some i \<Rightarrow> of_nat i)"

definition substr :: "string \<Rightarrow> 64 word \<Rightarrow> 64 word \<Rightarrow> fault + string" where
  "substr s pos n =
     (if unat pos > length s then Inl Out_of_range_thrown
      else Inr (take (unat n) (drop (unat pos) s)))"

definition get_index_col :: "FileMetaData \<Rightarrow> fault + string" where
  "get_index_col md =
     (case List.find (\<lambda>item. key item = ''pandas'') (key_value_metadata md) of
        None \<Rightarrow> Inr []
      | Some it \<Rightarrow>
          (let pos = str_find (kv_value it) ''index_columns'' 0 in
           if pos \<noteq> npos then
             (let begin_pos = str_find (kv_value it) ''['' pos;
                  end_pos = str_find (kv_value it) '']'' begin_pos in
              if end_pos - begin_pos > 4
              then substr (kv_value it) (begin_pos + 2) (end_pos - begin_pos - 3)
              else Inr [])
           else Inr []))"

subsection \<open>Opening the file and checking its frame (lines 386-406)\<close>

text \<open>
  Modelled from the spec: the structures \<^verbatim>\<open>file_header_s\<close> and \<^verbatim>\<open>file_ender_s\<close> and
  the macro \<^verbatim>\<open>PARQUET_MAGIC\<close> are declared in \<^verbatim>\<open>parquet.h\<close>, which is not among the
  sources. The file format of the spec fixes them: a 4-byte magic value at offset 0, and
  at the end of the file a 4-byte little-endian footer length followed by the 4-byte
  magic value. The magic value itself is a field of \<open>env\<close>.
\<close>

definition sizeof_file_header_s :: nat where
  "sizeof_file_header_s = 4"

definition sizeof_file_ender_s :: nat where
  "sizeof_file_ender_s = 8"

definition le32 :: "byte list \<Rightarrow> 32 word" where
  "le32 bs = foldr (\<lambda>b w. ucast b + 256 * w) (take 4 bs) 0"

definition header_magic :: "byte list \<Rightarrow> 32 word" where
  "header_magic r = le32 r"

definition footer_len :: "byte list \<Rightarrow> 32 word" where
  "footer_len r = le32 (drop (length r - sizeof_file_ender_s) r)"

definition ender_magic :: "byte list \<Rightarrow> 32 word" where
  "ender_magic r = le32 (drop (length r - sizeof_file_ender_s + 4) r)"

definition init_locals :: "pq_read_arg \<Rightarrow> locals" where
  "init_locals a =
     \<lparr>args = a, raw = [],
      file_md = \<lparr>schema = [], row_groups = [], md_num_rows = 0, key_value_metadata = []\<rparr>,
      index_col_name = [], col_indexes = \<lparr>storage = [], used = 0\<rparr>, cols = [],
      num_columns = 0, l_num_rows = 0, index_col = - 1, chunk_map = [],
      state = \<lparr>chunk_desc = [], chunk_desc_dev = [], page_index = [], page_index_dev = [],
               max_num_chunks = 0, total_pages = 0, num_compressed_pages = 0,
               total_decompressed_size = 0, total_str_indices = 0,
               st_str_dict_index = None, decompressed_pages = None\<rparr>,
      trace = []\<rparr>"

definition check_file :: "env \<Rightarrow> locals \<Rightarrow> flow" where
  "check_file e c =
     (case LoadFile (source (args c)) of
        None \<Rightarrow> Return GDF_FILE_ERROR c
      | Some r \<Rightarrow>
          if length r < sizeof_file_header_s + sizeof_file_ender_s
          then Return GDF_FILE_ERROR c
          else if header_magic r \<noteq> PARQUET_MAGIC e \<or> ender_magic r \<noteq> PARQUET_MAGIC e
          then Return GDF_FILE_ERROR c
          else if unat (footer_len r) > length r - sizeof_file_header_s - sizeof_file_ender_s
                  \<or> footer_len r \<le> 0
          then Return GDF_FILE_ERROR c
          else Continue (c\<lparr>raw := r\<rparr>))"

subsection \<open>Parsing the footer (lines 407-416)\<close>

text \<open>
  \<^verbatim>\<open>print_metadata\<close> prints; its last line reads \<^verbatim>\<open>file_md.row_groups[0]\<close>, which is
  a read out of bounds when the parser has left no row group.
\<close>

definition print_metadata :: "locals \<Rightarrow> flow" where
  "print_metadata c =
     (if row_groups (file_md c) = [] then Abort Out_of_bounds_read c else Continue c)"

definition read_metadata :: "env \<Rightarrow> locals \<Rightarrow> flow" where
  "read_metadata e c =
     (let n = unat (footer_len (raw c));
          footer = take n (drop (length (raw c) - n - sizeof_file_ender_s) (raw c));
          parsed = cp_read e footer;
          c1 = emit Call_cp_read c;
          c2 = (if \<not> fst parsed then emit (Printed ''Error parsing file metadata'') c1 else c1);
          inited = cp_InitSchema e (snd parsed);
          c3 = emit Call_InitSchema c2;
          c4 = (if \<not> fst inited then emit (Printed ''Failed to initialize schema'') c3 else c3)
      in print_metadata (c4\<lparr>file_md := snd inited\<rparr>))"

subsection \<open>Selecting the columns (lines 418-451)\<close>

definition filter_columns ::
  "string list \<Rightarrow> ColumnChunk list \<Rightarrow> size_t_vector \<Rightarrow> size_t_vector" where
  "filter_columns names cs v =
     fold (\<lambda>(i, col) w.
             if to_dot_string (path_in_schema (meta_data col)) \<in> set names
             then push_back i w else w)
          (zip [0..<length cs] cs) (clear v)"

definition select_columns :: "locals \<Rightarrow> flow" where
  "select_columns c =
     (let md = file_md c;
          max_num_columns =
            (case row_groups md of [] \<Rightarrow> 0 | rg # _ \<Rightarrow> int (length (columns rg)))
      in if max_num_columns \<le> 0
         then Return GDF_DATASET_EMPTY (emit (Printed ''No columns found.'') c)
         else
           (case get_index_col md of
              Inl x \<Rightarrow> Abort x c
            | Inr name \<Rightarrow>
                (let every = iota_vector (nat max_num_columns);
                     chosen =
                       (case use_cols (args c) of
                          None \<Rightarrow> every
                        | Some u \<Rightarrow>
                            filter_columns (u @ [name]) (columns (hd (row_groups md))) every);
                     c1 = c\<lparr>index_col_name := name, col_indexes := chosen\<rparr>
                 in if used chosen = 0
                    then Return GDF_SUCCESS (emit (Printed ''No matching columns found.'') c1)
                    else Continue c1)))"

subsection \<open>Initialising the output columns (lines 454-477)\<close>

definition read_at :: "'a list \<Rightarrow> nat \<Rightarrow> 'a option" where
  "read_at xs i = (if i < length xs then Some (xs ! i) else None)"

definition init_column :: "nat \<Rightarrow> locals \<Rightarrow> flow" where
  "init_column i c =
     (let md = file_md c in
      case unchecked_at (col_indexes c) i of
        None \<Rightarrow> Abort Out_of_bounds_read c
      | Some idx \<Rightarrow>
          (case read_at (columns (hd (row_groups md))) idx of
             None \<Rightarrow> Abort Out_of_bounds_read c
           | Some col \<Rightarrow>
               (case schema_at md (schema_idx col) of
                  None \<Rightarrow> Abort Out_of_bounds_read c
                | Some schema_elem \<Rightarrow>
                    (let name = to_dot_string (path_in_schema (meta_data col));
                         c1 = (if name = index_col_name c then c\<lparr>index_col := int i\<rparr> else c);
                         dt = to_dtype (type schema_elem) (converted_type schema_elem);
                         column = \<lparr>col_name = name, col_size = to_int32 (md_num_rows md),
                                   dtype = fst dt, dtype_info = snd dt, null_count = 0,
                                   data = None, valid = None\<rparr>
                     in Continue (c1\<lparr>cols := cols c1 @ [column]\<rparr>)))))"

definition init_columns :: "locals \<Rightarrow> flow" where
  "init_columns c =
     (let n = used (col_indexes c);
          c1 = c\<lparr>num_columns := n, cols := [], col_indexes := clear (col_indexes c)\<rparr>
      in foreach init_column [0..<n] c1)"

subsection \<open>Building the chunk descriptors (lines 479-545)\<close>

definition alloc_chunks :: "env \<Rightarrow> nat \<Rightarrow> nat \<Rightarrow> locals \<Rightarrow> flow" where
  "alloc_chunks e rowgroups columns_count c =
     (let n = to_int32 (int (rowgroups * columns_count));
          c1 = c\<lparr>state := (state c)\<lparr>max_num_chunks := n\<rparr>\<rparr>;
          c2 = emit (Alloc Chunk_desc_host (nat n)) (emit (Alloc Chunk_desc_dev (nat n)) c1)
      in GDF_TRY (try_status e Try_alloc_chunks) c2)"

text \<open>
  The enumerators of \<^verbatim>\<open>parquet::Type\<close> have the values the Parquet format gives them;
  \<^verbatim>\<open>required_bits\<close> is \<^verbatim>\<open>static_cast<uint8_t>(CPReader::NumRequiredBits(max_level))\<close>.
\<close>

definition Type_value :: "Type \<Rightarrow> 16 word" where
  "Type_value t =
     (case t of BOOLEAN \<Rightarrow> 0 | INT32 \<Rightarrow> 1 | INT64 \<Rightarrow> 2 | INT96 \<Rightarrow> 3 | FLOAT \<Rightarrow> 4
      | DOUBLE \<Rightarrow> 5 | BYTE_ARRAY \<Rightarrow> 6 | FIXED_LEN_BYTE_ARRAY \<Rightarrow> 7)"

definition required_bits :: "env \<Rightarrow> int \<Rightarrow> nat" where
  "required_bits e max_level = to_uint8 (NumRequiredBits e (nat (to_uint32 max_level)))"

definition bytes_at :: "byte list \<Rightarrow> int \<Rightarrow> int \<Rightarrow> byte list option" where
  "bytes_at r off n =
     (if 0 \<le> off \<and> nat off + nat n \<le> length r then Some (take (nat n) (drop (nat off) r))
      else None)"

fun first_match :: "('a \<Rightarrow> bool) \<Rightarrow> 'a list \<Rightarrow> (nat \<times> 'a) option" where
  "first_match P [] = None"
| "first_match P (x # xs) =
     (if P x then Some (0, x) else map_option (\<lambda>(k, y). (Suc k, y)) (first_match P xs))"

definition add_chunk :: "env \<Rightarrow> RowGroup \<Rightarrow> ColumnChunk \<Rightarrow> nat \<Rightarrow> gdf_column \<Rightarrow> locals \<Rightarrow> flow" where
  "add_chunk e rowgroup col k column c =
     (let st = state c in
      if int (length (chunk_desc st)) < max_num_chunks st then
        (case schema_at (file_md c) (schema_idx col) of
           None \<Rightarrow> Abort Out_of_bounds_read c
         | Some schema_elem \<Rightarrow>
             (let m = meta_data col;
                  first_page_offset =
                    (if dictionary_page_offset m \<noteq> 0
                     then min (data_page_offset m) (dictionary_page_offset m)
                     else data_page_offset m);
                  tl0 = (if type schema_elem = FIXED_LEN_BYTE_ARRAY
                         then word_of_int (type_length schema_elem * 8) else 0) :: 16 word;
                  tl = (if dtype column = GDF_INT8 then 1
                        else if dtype column = GDF_INT16 then 2 else tl0);
                  chunk =
                    \<lparr>compressed_data = None,
                     compressed_size = total_compressed_size m,
                     cd_num_values = cm_num_values m,
                     start_row = l_num_rows c,
                     cd_num_rows = to_uint32 (rg_num_rows rowgroup),
                     max_def_level = to_int16 (max_definition_level schema_elem),
                     max_rep_level = to_int16 (max_repetition_level schema_elem),
                     data_type = Type_value (type schema_elem) OR push_bit 3 tl,
                     def_level_bits = required_bits e (max_definition_level schema_elem),
                     rep_level_bits = required_bits e (max_repetition_level schema_elem),
                     num_data_pages = 0, num_dict_pages = 0, max_num_pages = 0,
                     page_info = None, str_dict_index = None,
                     valid_map_base = None, column_data_base = None\<rparr>;
                  store = (\<lambda>ch c'. c'\<lparr>state := (state c')\<lparr>chunk_desc := chunk_desc (state c') @ [ch]\<rparr>,
                                        chunk_map := chunk_map c' @ [(col, k)]\<rparr>)
              in if total_compressed_size m > 0 then
                   (case bytes_at (raw c) first_page_offset (total_compressed_size m) of
                      None \<Rightarrow> Abort Out_of_bounds_read c
                    | Some bytes \<Rightarrow>
                        Continue (store (chunk\<lparr>compressed_data := Some bytes\<rparr>)
                                  (emit (Alloc Compressed_data (nat (total_compressed_size m))) c)))
                 else Continue (store chunk c)))
      else Continue (emit (Printed ''Too many chunks!!!'') c))"

definition match_chunk :: "env \<Rightarrow> RowGroup \<Rightarrow> ColumnChunk \<Rightarrow> locals \<Rightarrow> flow" where
  "match_chunk e rowgroup col c =
     (let name = to_dot_string (path_in_schema (meta_data col)) in
      case first_match (\<lambda>g. name = col_name g) (cols c) of
        None \<Rightarrow> Continue c
      | Some (k, column) \<Rightarrow> add_chunk e rowgroup col k column c)"

definition scan_rowgroup :: "env \<Rightarrow> RowGroup \<Rightarrow> locals \<Rightarrow> flow" where
  "scan_rowgroup e rowgroup c =
     and_then (foreach (match_chunk e rowgroup) (columns rowgroup) c)
       (\<lambda>c'. Continue (c'\<lparr>l_num_rows := to_int32 (l_num_rows c' + rg_num_rows rowgroup)\<rparr>))"

definition build_chunks :: "env \<Rightarrow> locals \<Rightarrow> flow" where
  "build_chunks e c =
     and_then (alloc_chunks e (length (row_groups (file_md c))) (num_columns c) c)
       (foreach (scan_rowgroup e) (row_groups (file_md c)))"

subsection \<open>Decoding the page headers (lines 547-578)\<close>

text \<open>
  \<^verbatim>\<open>dispatch_chunk_op\<close> with \<^verbatim>\<open>DecodePageHeaders\<close>: the descriptors go to the device,
  the kernel rewrites the device descriptors and the device page records their
  \<^verbatim>\<open>page_info\<close> pointers reach, and the descriptors come back. The host page records
  are not part of the transfer.
\<close>

definition dispatch_DecodePageHeaders :: "env \<Rightarrow> try_site \<Rightarrow> locals \<Rightarrow> flow" where
  "dispatch_DecodePageHeaders e site c =
     (let st = state c;
          pushed = chunk_desc st;
          result = DecodePageHeaders e pushed (page_index_dev st);
          descs = written_to (fst result) pushed;
          pages = written_to (snd result) (page_index_dev st);
          st1 = st\<lparr>chunk_desc_dev := descs, page_index_dev := pages, chunk_desc := descs\<rparr>
      in GDF_TRY (try_status e site) (emit (Launch K_DecodePageHeaders) (c\<lparr>state := st1\<rparr>)))"

definition count_total_pages :: "locals \<Rightarrow> locals" where
  "count_total_pages c =
     c\<lparr>state := (state c)\<lparr>total_pages :=
          fold (\<lambda>d t. t + (num_data_pages d + num_dict_pages d)) (chunk_desc (state c))
               (total_pages (state c))\<rparr>\<rparr>"

definition count_pages :: "env \<Rightarrow> locals \<Rightarrow> flow" where
  "count_pages e c =
     and_then (dispatch_DecodePageHeaders e Try_count_pages c) (\<lambda>c1. Continue (count_total_pages c1))"

definition alloc_pages :: "env \<Rightarrow> locals \<Rightarrow> flow" where
  "alloc_pages e c =
     (let st = state c;
          n = total_pages st;
          st1 = st\<lparr>page_index_dev := map (uninitialized_dev e) [0..<n],
                   page_index := map (uninitialized_host e) [0..<n]\<rparr>;
          c1 = emit (Alloc Page_index_host n) (emit (Alloc Page_index_dev n) (c\<lparr>state := st1\<rparr>))
      in GDF_TRY (try_status e Try_alloc_pages) c1)"

fun assign_page_info :: "nat \<Rightarrow> ColumnChunkDesc list \<Rightarrow> ColumnChunkDesc list" where
  "assign_page_info page_cnt [] = []"
| "assign_page_info page_cnt (d # ds) =
     d\<lparr>max_num_pages := num_data_pages d + num_dict_pages d, page_info := Some page_cnt\<rparr>
     # assign_page_info (page_cnt + (num_data_pages d + num_dict_pages d)) ds"

definition attach_page_info :: "locals \<Rightarrow> locals" where
  "attach_page_info c =
     c\<lparr>state := (state c)\<lparr>chunk_desc := assign_page_info 0 (chunk_desc (state c))\<rparr>\<rparr>"

definition store_page_info :: "env \<Rightarrow> locals \<Rightarrow> flow" where
  "store_page_info e c = dispatch_DecodePageHeaders e Try_store_pages (attach_page_info c)"

subsection \<open>Decompressing the pages (lines 580-683)\<close>

definition g_supportedCodecs :: "Compression list" where
  "g_supportedCodecs = [GZIP, SNAPPY]"

text \<open>
  One pass of the inner loop of lines 588-600 for one codec. The accumulator is
  \<^verbatim>\<open>(codec_page_cnt, page_cnt, total_decompressed_size)\<close>; the pages are the host
  array \<^verbatim>\<open>page_index\<close>.
\<close>

fun count_codec_pages ::
  "Compression \<Rightarrow> PageInfo list \<Rightarrow> (ColumnChunkDesc \<times> ColumnChunk) list \<Rightarrow> nat \<times> nat \<times> nat
   \<Rightarrow> (nat \<times> nat \<times> nat) option" where
  "count_codec_pages cdc pages [] acc = Some acc"
| "count_codec_pages cdc pages ((d, col) # rest) (codec_page_cnt, page_cnt, tds) =
     (if codec (meta_data col) = cdc then
        (case elements_at pages page_cnt (max_num_pages d) of
           None \<Rightarrow> None
         | Some ps \<Rightarrow>
             count_codec_pages cdc pages rest
               (codec_page_cnt + max_num_pages d, page_cnt + max_num_pages d,
                fold (\<lambda>p t. t + uncompressed_page_size p) ps tds))
      else count_codec_pages cdc pages rest (codec_page_cnt, page_cnt + max_num_pages d, tds))"

text \<open>
  The loop over the codec table (lines 584-607). The accumulator is
  \<^verbatim>\<open>(compressed_page_cnt[], num_compressed_pages, total_decompressed_size)\<close>.
\<close>

fun count_compressed_pages ::
  "Compression list \<Rightarrow> PageInfo list \<Rightarrow> (ColumnChunkDesc \<times> ColumnChunk) list
   \<Rightarrow> nat list \<times> nat \<times> nat \<Rightarrow> (nat list \<times> nat \<times> nat) option" where
  "count_compressed_pages [] pages chunks acc = Some acc"
| "count_compressed_pages (cdc # rest) pages chunks (cnts, num, tds) =
     (case count_codec_pages cdc pages chunks (0, 0, tds) of
        None \<Rightarrow> None
      | Some (codec_page_cnt, page_cnt, tds1) \<Rightarrow>
          count_compressed_pages rest pages chunks
            (cnts @ [codec_page_cnt], num + codec_page_cnt, tds1))"

record inflate_locals =
  il_pages :: "PageInfo list"
  inflate_in :: "gpu_inflate_input_s list"
  inflate_out :: "gpu_inflate_status_s list"
  decompressed_ofs :: nat
  il_events :: "event list"

text \<open>The body of the loop of lines 635-646 for the page at index \<open>i\<close>.\<close>

definition fill_inflate_page :: "nat \<Rightarrow> inflate_locals \<Rightarrow> inflate_locals option" where
  "fill_inflate_page i s =
     (case read_at (il_pages s) i of
        None \<Rightarrow> None
      | Some p \<Rightarrow>
          Some (s\<lparr>inflate_in := inflate_in s @
                     [\<lparr>srcDevice = compressed_page_data p, srcSize = compressed_page_size p,
                       dstDevice = In_decompressed_pages (decompressed_ofs s),
                       dstSize = uncompressed_page_size p\<rparr>],
                  inflate_out := inflate_out s @ [\<lparr>bytes_written = 0, status = - 1000, reserved = 0\<rparr>],
                  il_pages := (il_pages s)[i := p\<lparr>compressed_page_data :=
                                                  In_decompressed_pages (decompressed_ofs s)\<rparr>],
                  decompressed_ofs := decompressed_ofs s + uncompressed_page_size p\<rparr>))"

fun fill_inflate_pages :: "nat list \<Rightarrow> inflate_locals \<Rightarrow> inflate_locals option" where
  "fill_inflate_pages [] s = Some s"
| "fill_inflate_pages (i # rest) s =
     (case fill_inflate_page i s of None \<Rightarrow> None | Some s1 \<Rightarrow> fill_inflate_pages rest s1)"

fun fill_inflate_chunks ::
  "Compression \<Rightarrow> (ColumnChunkDesc \<times> ColumnChunk) list \<Rightarrow> nat \<Rightarrow> inflate_locals
   \<Rightarrow> inflate_locals option" where
  "fill_inflate_chunks cdc [] page_cnt s = Some s"
| "fill_inflate_chunks cdc ((d, col) # rest) page_cnt s =
     (if codec (meta_data col) = cdc then
        (case fill_inflate_pages (map (\<lambda>k. page_cnt + k) [0..<max_num_pages d]) s of
           None \<Rightarrow> None
         | Some s1 \<Rightarrow> fill_inflate_chunks cdc rest (page_cnt + max_num_pages d) s1)
      else fill_inflate_chunks cdc rest (page_cnt + max_num_pages d) s)"

text \<open>
  One round of the loop of lines 623-666: the batch of one codec is filled in, copied to
  the device, decompressed by the codec's kernel, and its status records are copied back.
\<close>

definition inflate_codec ::
  "env \<Rightarrow> (ColumnChunkDesc \<times> ColumnChunk) list \<Rightarrow> Compression \<times> nat \<Rightarrow> inflate_locals
   \<Rightarrow> inflate_locals option" where
  "inflate_codec e chunks entry s =
     (if snd entry > 0 then
        (let start_pos = length (inflate_in s) in
         case fill_inflate_chunks (fst entry) chunks 0 s of
           None \<Rightarrow> None
         | Some s1 \<Rightarrow>
             (let batch_in = drop start_pos (inflate_in s1);
                  batch_out = drop start_pos (inflate_out s1);
                  done_out =
                    (case fst entry of
                       GZIP \<Rightarrow> written_to (gpuinflate e batch_in batch_out) batch_out
                     | SNAPPY \<Rightarrow> written_to (gpu_unsnap e batch_in batch_out) batch_out
                     | _ \<Rightarrow> batch_out);
                  ev =
                    (case fst entry of
                       GZIP \<Rightarrow> Launch K_gpuinflate
                     | SNAPPY \<Rightarrow> Launch K_gpu_unsnap
                     | _ \<Rightarrow> Printed ''This is a bug'')
              in Some (s1\<lparr>inflate_out := take start_pos (inflate_out s1) @ done_out,
                          il_events := il_events s1 @ [ev]\<rparr>)))
      else Some s)"

fun inflate_codecs ::
  "env \<Rightarrow> (ColumnChunkDesc \<times> ColumnChunk) list \<Rightarrow> (Compression \<times> nat) list \<Rightarrow> inflate_locals
   \<Rightarrow> inflate_locals option" where
  "inflate_codecs e chunks [] s = Some s"
| "inflate_codecs e chunks (entry # rest) s =
     (case inflate_codec e chunks entry s of
        None \<Rightarrow> None
      | Some s1 \<Rightarrow> inflate_codecs e chunks rest s1)"

text \<open>The status lines of lines 670-674.\<close>

definition status_lines :: "gpu_inflate_status_s list \<Rightarrow> event list" where
  "status_lines outs =
     concat (map (\<lambda>(i, s). if status s \<noteq> 0 \<or> bytes_written s > 100000
                            then [Printed_status i (status s) (bytes_written s)] else [])
                 (zip [0..<length outs] outs))"

definition inflate_pages ::
  "env \<Rightarrow> (ColumnChunkDesc \<times> ColumnChunk) list \<Rightarrow> nat list \<Rightarrow> locals \<Rightarrow> flow" where
  "inflate_pages e chunks compressed_page_cnt c =
     (let st = state c;
          n = num_compressed_pages st;
          c1 = emit (Alloc Decompressed_pages (total_decompressed_size st))
                 (emit (Alloc Inflate_out_dev n) (emit (Alloc Inflate_out_host n)
                   (emit (Alloc Inflate_in_dev n) (emit (Alloc Inflate_in_host n)
                     (c\<lparr>state := st\<lparr>decompressed_pages := Some (total_decompressed_size st)\<rparr>\<rparr>)))))
      in case inflate_codecs e chunks (zip g_supportedCodecs compressed_page_cnt)
                \<lparr>il_pages = page_index st, inflate_in = [], inflate_out = [],
                 decompressed_ofs = 0, il_events = []\<rparr> of
           None \<Rightarrow> Abort Out_of_bounds_read c1
         | Some s \<Rightarrow>
             Continue
               (c1\<lparr>state := (state c1)\<lparr>page_index := il_pages s,
                                        page_index_dev := written_to (il_pages s) (page_index_dev st)\<rparr>,
                   trace := trace c1 @ il_events s @ status_lines (inflate_out s)\<rparr>))"

definition decompress_pages :: "env \<Rightarrow> locals \<Rightarrow> flow" where
  "decompress_pages e c =
     (let st = state c;
          chunks = zip (chunk_desc st) (map fst (chunk_map c))
      in case count_compressed_pages g_supportedCodecs (page_index st) chunks ([], 0, 0) of
           None \<Rightarrow> Abort Out_of_bounds_read c
         | Some (compressed_page_cnt, num, tds) \<Rightarrow>
             (let c1 = c\<lparr>state := st\<lparr>num_compressed_pages := num,
                                     total_decompressed_size := tds\<rparr>\<rparr>
              in if num > 0 then inflate_pages e chunks compressed_page_cnt c1 else Continue c1))"

definition decode_page_headers :: "env \<Rightarrow> locals \<Rightarrow> flow" where
  "decode_page_headers e c =
     and_then (count_pages e c)
       (\<lambda>c1. if total_pages (state c1) > 0
             then and_then (and_then (alloc_pages e c1) (store_page_info e)) (decompress_pages e)
             else Continue c1)"

subsection \<open>Allocating the column data (lines 318-337 and 687)\<close>

text \<open>
  The body of the loop of \<^verbatim>\<open>alloc_column_data\<close> for one column. \<^verbatim>\<open>num_rows\<close> and
  \<^verbatim>\<open>column_byte_width\<close> are of type \<^verbatim>\<open>int\<close>: their product is computed in 32 bits and
  then converted to the \<^verbatim>\<open>size_t\<close> that \<^verbatim>\<open>RMM_ALLOC\<close> takes (line 332).
\<close>

definition alloc_one_column :: "env \<Rightarrow> gdf_column \<Rightarrow> gdf_column \<times> event list" where
  "alloc_one_column e g =
     (let rows = max (col_size g) 1;
          num_masks = gdf_get_num_chars_bitmask e rows;
          column_byte_width =
            (if dtype g = GDF_STRING then to_int32 (int (sizeof_nvstrdesc_s e))
             else int (get_column_byte_width e (dtype g)));
          data_size = to_size_t (to_int32 (rows * column_byte_width))
      in (g\<lparr>data := Some data_size, valid := Some num_masks\<rparr>,
          [Alloc Column_data data_size, Alloc Column_valid num_masks]))"

definition alloc_column_data :: "env \<Rightarrow> locals \<Rightarrow> flow" where
  "alloc_column_data e c =
     (let done = map (alloc_one_column e) (cols c)
      in GDF_TRY (try_status e Try_alloc_column_data)
           (c\<lparr>cols := map fst done, trace := trace c @ concat (map snd done)\<rparr>))"

subsection \<open>The string dictionary index (lines 689-724)\<close>

text \<open>
  The loop of lines 691-699, with \<^verbatim>\<open>page_cnt\<close> and \<^verbatim>\<open>total_str_indices\<close> as
  accumulators; the pages are the host array \<^verbatim>\<open>page_index\<close>.
\<close>

fun count_str_indices ::
  "FileMetaData \<Rightarrow> PageInfo list \<Rightarrow> (ColumnChunkDesc \<times> ColumnChunk) list \<Rightarrow> nat \<Rightarrow> nat
   \<Rightarrow> nat option" where
  "count_str_indices md pages [] page_cnt n = Some n"
| "count_str_indices md pages ((d, col) # rest) page_cnt n =
     (case schema_at md (schema_idx col) of
        None \<Rightarrow> None
      | Some schema_elem \<Rightarrow>
          if type schema_elem = BYTE_ARRAY \<and> num_dict_pages d > 0 then
            (case read_at pages page_cnt of
               None \<Rightarrow> None
             | Some p \<Rightarrow>
                 count_str_indices md pages rest (page_cnt + max_num_pages d) (n + num_values p))
          else count_str_indices md pages rest (page_cnt + max_num_pages d) n)"

text \<open>
  A pointer into the string dictionary index is the number of the entry it points to,
  \<open>None\<close> being the null pointer. The base pointer \<^verbatim>\<open>str_dict_index\<close> of the state is null
  until \<^verbatim>\<open>alloc_dictionaries\<close> has run, and \<open>entry_at base ofs\<close> is \<^verbatim>\<open>base + ofs\<close>. On the null
  pointer the only offset the loop below adds is 0 (the offsets are partial sums of
  \<^verbatim>\<open>total_str_indices\<close>, which is 0 when nothing was allocated), and the sum is the null
  pointer.
\<close>

definition entry_at :: "nat option \<Rightarrow> nat \<Rightarrow> nat option" where
  "entry_at base ofs = (case base of None \<Rightarrow> None | Some n \<Rightarrow> Some ofs)"

text \<open>
  The loop of lines 706-718, with \<^verbatim>\<open>page_cnt\<close> and \<^verbatim>\<open>str_ofs\<close> as accumulators. The
  pointers \<^verbatim>\<open>valid_map_base\<close> and \<^verbatim>\<open>column_data_base\<close> are the index of the output
  column whose buffers they point to.
\<close>

fun wire_chunks ::
  "FileMetaData \<Rightarrow> PageInfo list \<Rightarrow> nat option \<Rightarrow> (ColumnChunkDesc \<times> ColumnChunk \<times> nat) list
   \<Rightarrow> nat \<Rightarrow> nat \<Rightarrow> ColumnChunkDesc list option" where
  "wire_chunks md pages base [] page_cnt str_ofs = Some []"
| "wire_chunks md pages base ((d, col, k) # rest) page_cnt str_ofs =
     (case schema_at md (schema_idx col) of
        None \<Rightarrow> None
      | Some schema_elem \<Rightarrow>
          if type schema_elem = BYTE_ARRAY \<and> num_dict_pages d > 0 then
            (case read_at pages page_cnt of
               None \<Rightarrow> None
             | Some p \<Rightarrow>
                 map_option
                   ((#) (d\<lparr>str_dict_index := entry_at base str_ofs, valid_map_base := Some k,
                            column_data_base := Some k\<rparr>))
                   (wire_chunks md pages base rest (page_cnt + max_num_pages d)
                      (str_ofs + num_values p)))
          else
            map_option ((#) (d\<lparr>valid_map_base := Some k, column_data_base := Some k\<rparr>))
              (wire_chunks md pages base rest (page_cnt + max_num_pages d) str_ofs))"

definition alloc_dictionaries :: "locals \<Rightarrow> locals" where
  "alloc_dictionaries c =
     emit (Alloc Str_dict_index (total_str_indices (state c)))
       (c\<lparr>state := (state c)\<lparr>st_str_dict_index := Some (total_str_indices (state c))\<rparr>\<rparr>)"

definition build_string_dictionaries :: "locals \<Rightarrow> flow" where
  "build_string_dictionaries c =
     (let st = state c;
          chunks = zip (chunk_desc st) (map fst (chunk_map c))
      in case count_str_indices (file_md c) (page_index st) chunks 0 0 of
           None \<Rightarrow> Abort Out_of_bounds_read c
         | Some n \<Rightarrow>
             (let c1 = c\<lparr>state := st\<lparr>total_str_indices := n\<rparr>\<rparr>;
                  c2 = (if n > 0 then alloc_dictionaries c1 else c1)
              in case wire_chunks (file_md c) (page_index st) (st_str_dict_index (state c2))
                        (zip (chunk_desc st) (chunk_map c)) 0 0 of
                   None \<Rightarrow> Abort Out_of_bounds_read c2
                 | Some descs \<Rightarrow>
                     (let c3 = c2\<lparr>state := (state c2)\<lparr>chunk_desc := descs, chunk_desc_dev := descs\<rparr>\<rparr>
                      in Continue (if n > 0 then emit (Launch K_BuildStringDictionaryIndex) c3
                                   else c3))))"

subsection \<open>Decoding the page data and counting the nulls (lines 726-741)\<close>

text \<open>
  The body of the loop of lines 732-740 for one page record. \<^verbatim>\<open>null_count\<close>, \<^verbatim>\<open>num_rows\<close>
  and \<^verbatim>\<open>valid_count\<close> are 32-bit integers: the difference and the sum wrap around.
\<close>

definition add_nulls :: "nat \<Rightarrow> (ColumnChunk \<times> nat) list \<Rightarrow> PageInfo \<Rightarrow> gdf_column list \<Rightarrow> gdf_column list" where
  "add_nulls num_chunks cmap p gs =
     (if num_rows p \<noteq> 0 then
        (let chunk = chunk_idx p in
         if chunk \<ge> 0 \<and> chunk < int num_chunks then
           (case read_at cmap (nat chunk) of
              None \<Rightarrow> gs
            | Some (col, k) \<Rightarrow>
                (case read_at gs k of
                   None \<Rightarrow> gs
                 | Some g \<Rightarrow>
                     gs[k := g\<lparr>null_count :=
                               to_int32 (null_count g + to_int32 (num_rows p - valid_count p))\<rparr>]))
         else gs)
      else gs)"

definition decode_page_data :: "env \<Rightarrow> locals \<Rightarrow> flow" where
  "decode_page_data e c =
     (let st = state c in
      if total_pages st > 0 then
        (let decoded = written_to (DecodePageData e (page_index_dev st) (chunk_desc_dev st)
                                    (md_num_rows (file_md c)))
                         (page_index_dev st);
             pulled = written_to decoded (page_index st);
             c1 = emit (Launch K_DecodePageData)
                    (c\<lparr>state := st\<lparr>page_index_dev := decoded, page_index := pulled\<rparr>\<rparr>)
         in Continue (c1\<lparr>cols := fold (add_nulls (length (chunk_desc st)) (chunk_map c))
                                       (take (nat (to_int32 (int (total_pages st)))) pulled)
                                       (cols c)\<rparr>))
      else Continue c)"

subsection \<open>Handing the columns to the caller (lines 743-753)\<close>

definition transfer_ownership :: "locals \<Rightarrow> flow" where
  "transfer_ownership c =
     (let a = (args c)\<lparr>arg_data := Some (cols c), num_cols_out := int (num_columns c),
                        num_rows_out := l_num_rows c\<rparr>;
          a1 = (if index_col c \<noteq> - 1 then a\<lparr>arg_index_col := Some (index_col c)\<rparr> else a)
      in Return GDF_SUCCESS (c\<lparr>args := a1\<rparr>))"

subsection \<open>\<^verbatim>\<open>read_parquet\<close>\<close>

text \<open>
  \<open>open_and_parse\<close> is the run up to the parsed metadata (lines 386-416),
  \<open>build_descriptors\<close> the run up to and including the chunk descriptors (lines
  386-545); \<open>read_parquet\<close> continues it with the phases that use the accelerator.
\<close>

definition open_and_parse :: "env \<Rightarrow> pq_read_arg \<Rightarrow> flow" where
  "open_and_parse e a = and_then (check_file e (init_locals a)) (read_metadata e)"

definition build_descriptors :: "env \<Rightarrow> pq_read_arg \<Rightarrow> flow" where
  "build_descriptors e a =
     and_then (and_then (and_then
       (open_and_parse e a)
       select_columns)
       init_columns)
       (build_chunks e)"

definition read_parquet :: "env \<Rightarrow> pq_read_arg \<Rightarrow> flow" where
  "read_parquet e a =
     and_then (and_then (and_then (and_then (and_then
       (build_descriptors e a)
       (decode_page_headers e))
       (alloc_column_data e))
       build_string_dictionaries)
       (decode_page_data e))
       transfer_ownership"

text \<open>What the caller sees: the status of a run that returned.\<close>

definition returned :: "flow \<Rightarrow> gdf_error option" where
  "returned f = (case f of Return r c \<Rightarrow> Some r | _ \<Rightarrow> None)"

text \<open>The elements of a vector: the first \<open>used\<close> cells of its storage.\<close>

definition elements :: "size_t_vector \<Rightarrow> nat list" where
  "elements v = take (used v) (storage v)"

text \<open>A block keeps a projection of the locals when no outcome of it changes that projection.\<close>

definition keeps :: "(locals \<Rightarrow> 'a) \<Rightarrow> (locals \<Rightarrow> flow) \<Rightarrow> bool" where
  "keeps proj stage = (\<forall>c. proj (locals_of (stage c)) = proj c)"

definition never_succeeds :: "(locals \<Rightarrow> flow) \<Rightarrow> bool" where
  "never_succeeds stage = (\<forall>c c'. stage c \<noteq> Return GDF_SUCCESS c')"

text \<open>
  Projections of the locals: what the blocks after the column initialisation leave alone
  (\<open>outside\<close>), the identity of the output columns, and their null counts.
\<close>

definition outside ::
  "locals \<Rightarrow> pq_read_arg \<times> byte list \<times> FileMetaData \<times> string \<times> size_t_vector \<times> nat \<times> int" where
  "outside c = (args c, raw c, file_md c, index_col_name c, col_indexes c, num_columns c, index_col c)"

definition col_ident :: "gdf_column \<Rightarrow> string \<times> gdf_dtype \<times> gdf_dtype_extra_info \<times> int" where
  "col_ident g = (col_name g, dtype g, dtype_info g, col_size g)"

definition col_summary :: "gdf_column \<Rightarrow> string \<times> gdf_dtype \<times> gdf_dtype_extra_info" where
  "col_summary g = (col_name g, dtype g, dtype_info g)"

definition col_idents :: "locals \<Rightarrow> (string \<times> gdf_dtype \<times> gdf_dtype_extra_info \<times> int) list" where
  "col_idents c = map col_ident (cols c)"

definition null_counts :: "locals \<Rightarrow> int list" where
  "null_counts c = map null_count (cols c)"

subsection \<open>The column selection as the specification words it\<close>

text \<open>
  The name of a column is its dot-joined schema path: the components of the path with a
  dot between each two (\<open>dot_joined\<close>, written without reference to the code's
  \<^verbatim>\<open>to_dot_string\<close>). With an allow-list, the selected
  columns are those whose name is in the allow-list, plus the index column; without one,
  all columns. A selected column is expected to come out under its name with the type
  that \<open>to_dtype\<close> maps its schema element to.
\<close>

fun dot_joined :: "string list \<Rightarrow> string" where
  "dot_joined [] = []"
| "dot_joined [p] = p"
| "dot_joined (p # q # ps) = p @ ''.'' @ dot_joined (q # ps)"

definition column_name :: "ColumnChunk \<Rightarrow> string" where
  "column_name col = dot_joined (path_in_schema (meta_data col))"

definition selected_columns ::
  "string list option \<Rightarrow> string \<Rightarrow> ColumnChunk list \<Rightarrow> ColumnChunk list" where
  "selected_columns allow_list index_name cs =
     (case allow_list of
        None \<Rightarrow> cs
      | Some u \<Rightarrow> filter (\<lambda>col. column_name col \<in> set u \<or> column_name col = index_name) cs)"

definition expected_column ::
  "FileMetaData \<Rightarrow> ColumnChunk \<Rightarrow> (string \<times> gdf_dtype \<times> gdf_dtype_extra_info) option" where
  "expected_column md col =
     map_option (\<lambda>s. (column_name col, to_dtype (type s) (converted_type s)))
       (schema_at md (schema_idx col))"

text \<open>
  The vector that \<open>select_columns\<close> leaves in \<^verbatim>\<open>col_indexes\<close>, and what \<open>init_column\<close>
  reads for the output column \<open>i\<close>.
\<close>

definition chosen_indexes ::
  "string list option \<Rightarrow> string \<Rightarrow> ColumnChunk list \<Rightarrow> size_t_vector" where
  "chosen_indexes allow_list name cs =
     (case allow_list of
        None \<Rightarrow> iota_vector (length cs)
      | Some u \<Rightarrow> filter_columns (u @ [name]) cs (iota_vector (length cs)))"

definition expected_at ::
  "locals \<Rightarrow> nat \<Rightarrow> (string \<times> gdf_dtype \<times> gdf_dtype_extra_info) option" where
  "expected_at c i =
     (case unchecked_at (col_indexes c) i of
        None \<Rightarrow> None
      | Some idx \<Rightarrow>
          (case read_at (columns (hd (row_groups (file_md c)))) idx of
             None \<Rightarrow> None
           | Some col \<Rightarrow> expected_column (file_md c) col))"

subsection \<open>The pages of an output column\<close>

text \<open>
  The output column that owns a page: the column that \<^verbatim>\<open>chunk_map\<close> records for the
  chunk \<^verbatim>\<open>chunk_idx\<close> of the page, for a page with a non-zero row count and a chunk
  index in range (\<open>owner_in\<close> takes the number of chunks and the side table as they
  are when the nulls are counted, \<open>page_owner\<close> takes them from the locals). The pages
  of a column are the entries of the host page array that it owns, among those the loop
  of lines 731-741 visits.
\<close>

definition owner_in :: "nat \<Rightarrow> (ColumnChunk \<times> nat) list \<Rightarrow> PageInfo \<Rightarrow> nat option" where
  "owner_in n cmap p =
     (if num_rows p \<noteq> 0 \<and> 0 \<le> chunk_idx p \<and> chunk_idx p < int n
      then map_option snd (read_at cmap (nat (chunk_idx p)))
      else None)"

definition page_owner :: "locals \<Rightarrow> PageInfo \<Rightarrow> nat option" where
  "page_owner c p =
     (if num_rows p \<noteq> 0 \<and> 0 \<le> chunk_idx p \<and> chunk_idx p < int (length (chunk_desc (state c)))
      then map_option snd (read_at (chunk_map c) (nat (chunk_idx p)))
      else None)"

definition column_pages :: "locals \<Rightarrow> nat \<Rightarrow> PageInfo list" where
  "column_pages c k =
     filter (\<lambda>p. page_owner c p = Some k)
       (take (nat (to_int32 (int (total_pages (state c))))) (page_index (state c)))"

subsection \<open>Allocations, sub-ranges of the page array, and dictionary slices\<close>

text \<open>
  The allocations of a run in the regions \<open>rs\<close>, in the order they were made.
\<close>

definition allocates :: "region list \<Rightarrow> event \<Rightarrow> bool" where
  "allocates rs ev = (case ev of Alloc r n \<Rightarrow> r \<in> set rs | _ \<Rightarrow> False)"

definition allocations :: "region list \<Rightarrow> locals \<Rightarrow> event list" where
  "allocations rs c = filter (allocates rs) (trace c)"

text \<open>
  The pages of a chunk as pass 1 counted them, and the start of the chunk's sub-range when
  the page array is partitioned contiguously in chunk order: the pages of the chunks
  before it.
\<close>

definition page_count :: "ColumnChunkDesc \<Rightarrow> nat" where
  "page_count d = num_data_pages d + num_dict_pages d"

definition sub_range_start :: "ColumnChunkDesc list \<Rightarrow> nat \<Rightarrow> nat" where
  "sub_range_start ds i = (\<Sum>d\<leftarrow>take i ds. page_count d)"

text \<open>The running total of the counting loop of lines 552-558.\<close>

definition pages_counted :: "locals \<Rightarrow> nat" where
  "pages_counted c = total_pages (state c)"

text \<open>A block that ran to its end.\<close>

definition continues :: "flow \<Rightarrow> bool" where
  "continues f = (case f of Continue c \<Rightarrow> True | _ \<Rightarrow> False)"




text \<open>
  A chunk has a string dictionary when its schema element has the physical type
  \<open>BYTE_ARRAY\<close> and pass 1 counted a dictionary page in it. The slice of the dictionary
  index of a chunk has as many entries as the \<^verbatim>\<open>num_values\<close> of the page entry at the start
  of the chunk's sub-range (none for a chunk without string dictionary); a slice starts
  where the slices of the chunks before it end.
\<close>

definition has_string_dictionary :: "FileMetaData \<Rightarrow> ColumnChunkDesc \<times> ColumnChunk \<Rightarrow> bool" where
  "has_string_dictionary md chunk =
     (case schema_at md (schema_idx (snd chunk)) of
        None \<Rightarrow> False
      | Some schema_elem \<Rightarrow> type schema_elem = BYTE_ARRAY \<and> num_dict_pages (fst chunk) > 0)"

fun dictionary_sizes ::
  "FileMetaData \<Rightarrow> PageInfo list \<Rightarrow> nat \<Rightarrow> (ColumnChunkDesc \<times> ColumnChunk) list \<Rightarrow> nat list" where
  "dictionary_sizes md pages off [] = []"
| "dictionary_sizes md pages off (chunk # rest) =
     (if has_string_dictionary md chunk
      then (case read_at pages off of None \<Rightarrow> 0 | Some p \<Rightarrow> num_values p)
      else 0)
     # dictionary_sizes md pages (off + max_num_pages (fst chunk)) rest"




text \<open>
  The read up to the end of the second header pass, for a read with pages (lines
  386-573), and up to and including the allocation of the column data (lines 386-687).
\<close>

definition header_passes :: "env \<Rightarrow> pq_read_arg \<Rightarrow> flow" where
  "header_passes e a =
     and_then (and_then (and_then (build_descriptors e a) (count_pages e)) (alloc_pages e))
       (store_page_info e)"


definition allocate_columns :: "env \<Rightarrow> pq_read_arg \<Rightarrow> flow" where
  "allocate_columns e a =
     and_then (and_then (build_descriptors e a) (decode_page_headers e)) (alloc_column_data e)"

subsection \<open>Example files\<close>

definition PAR1 :: "byte list" where
  "PAR1 = [0x50, 0x41, 0x52, 0x31]"

text \<open>A file of 21 bytes: magic, 8 bytes of page data, a footer of 1 byte, its length, magic.\<close>

definition example_file :: "byte list" where
  "example_file = PAR1 @ [1, 2, 3, 4, 5, 6, 7, 8] @ [0xAA] @ [1, 0, 0, 0] @ PAR1"

definition bad_magic_file :: "byte list" where
  "bad_magic_file = [0x50, 0x41, 0x52, 0x32] @ [1, 2, 3, 4, 5, 6, 7, 8] @ [0xAA] @ [1, 0, 0, 0] @ PAR1"

definition example_column :: "string \<Rightarrow> int \<Rightarrow> Compression \<Rightarrow> int \<Rightarrow> ColumnChunk" where
  "example_column name idx cdc sz =
     \<lparr>meta_data = \<lparr>path_in_schema = [name], codec = cdc, total_compressed_size = sz,
                   cm_num_values = 10, data_page_offset = 4, dictionary_page_offset = 0\<rparr>,
      schema_idx = idx\<rparr>"

definition example_element :: "Type \<Rightarrow> SchemaElement" where
  "example_element t =
     \<lparr>type = t, converted_type = UNKNOWN, type_length = 0, max_definition_level = 1,
      max_repetition_level = 0\<rparr>"

text \<open>
  Three columns \<open>a\<close>, \<open>b\<close>, \<open>idx\<close> in one row group of 10 rows, with the index hint
  \<^verbatim>\<open>index_columns: ["idx"]\<close> under the key \<^verbatim>\<open>pandas\<close>.
\<close>

definition example_md :: FileMetaData where
  "example_md =
     \<lparr>schema = [example_element INT32, example_element BYTE_ARRAY, example_element INT64],
      row_groups =
        [\<lparr>columns = [example_column ''a'' 0 GZIP 4, example_column ''b'' 1 UNCOMPRESSED 4,
                     example_column ''idx'' 2 UNCOMPRESSED 0],
          rg_num_rows = 10\<rparr>],
      md_num_rows = 10,
      key_value_metadata =
        [\<lparr>key = ''pandas'',
          kv_value = ''{index_columns: ['' @ [CHR 0x22] @ ''idx'' @ [CHR 0x22] @ '']}''\<rparr>]\<rparr>"

definition example_page :: "nat \<Rightarrow> int \<Rightarrow> int \<Rightarrow> PageInfo" where
  "example_page sz ck valid_rows =
     \<lparr>compressed_page_data = Nullptr, uncompressed_page_size = sz, compressed_page_size = 4,
      num_values = 10, chunk_row = 0, num_rows = 10, chunk_idx = ck, flags = 0, encoding = 0,
      valid_count = valid_rows\<rparr>"

text \<open>
  An environment in which every call succeeds: the parser delivers \<open>md\<close>, the header
  kernel finds \<open>data_pages\<close> data pages and \<open>dict_pages\<close> dictionary pages of 2048 bytes
  in every chunk, fresh host memory holds pages of \<open>host_size\<close> bytes, the decompression
  kernels report \<open>inflate_status\<close>, and the decoder finds 7 valid rows in every page.
\<close>

definition example_env :: "bool \<Rightarrow> FileMetaData \<Rightarrow> nat \<Rightarrow> nat \<Rightarrow> nat \<Rightarrow> int \<Rightarrow> env" where
  "example_env parse_ok md data_pages dict_pages host_size inflate_status =
     \<lparr>PARQUET_MAGIC = 0x31524150,
      cp_read = (\<lambda>footer. (parse_ok, md)),
      cp_InitSchema = (\<lambda>m. (True, m)),
      NumRequiredBits = (\<lambda>n. n),
      try_status = (\<lambda>site. GDF_SUCCESS),
      uninitialized_host = (\<lambda>i. example_page host_size 0 0),
      uninitialized_dev = (\<lambda>i. example_page 0 0 0),
      DecodePageHeaders =
        (\<lambda>ds ps. (map (\<lambda>d. d\<lparr>num_data_pages := data_pages, num_dict_pages := dict_pages\<rparr>) ds,
                  map (\<lambda>i. example_page 2048 (int i) 0) [0..<length ps])),
      gpuinflate =
        (\<lambda>ins outs. map (\<lambda>i. \<lparr>bytes_written = dstSize i, status = inflate_status, reserved = 0\<rparr>) ins),
      gpu_unsnap =
        (\<lambda>ins outs. map (\<lambda>i. \<lparr>bytes_written = dstSize i, status = inflate_status, reserved = 0\<rparr>) ins),
      DecodePageData = (\<lambda>ps ds n. map (\<lambda>i. example_page 2048 (int i) 7) [0..<length ps]),
      gdf_get_num_chars_bitmask = (\<lambda>n. nat ((n + 7) div 8)),
      get_column_byte_width = (\<lambda>t. 4),
      sizeof_nvstrdesc_s = 16\<rparr>"

definition example_args :: "byte list \<Rightarrow> string list option \<Rightarrow> pq_read_arg" where
  "example_args file names =
     \<lparr>source = Some file, use_cols = names, arg_data = None, num_cols_out = 0,
      num_rows_out = 0, arg_index_col = None\<rparr>"

text \<open>A file whose only row group has no column, and the example file without an index hint.\<close>

definition no_columns_md :: FileMetaData where
  "no_columns_md =
     \<lparr>schema = [], row_groups = [\<lparr>columns = [], rg_num_rows = 0\<rparr>], md_num_rows = 0,
      key_value_metadata = []\<rparr>"

definition no_hint_md :: FileMetaData where
  "no_hint_md = example_md\<lparr>key_value_metadata := []\<rparr>"

text \<open>
  A file whose second row group lists the column \<open>a\<close> twice: three chunks match the one
  selected column, and the descriptor array has room for two.
\<close>

definition repeated_column_md :: FileMetaData where
  "repeated_column_md =
     \<lparr>schema = [example_element INT32],
      row_groups =
        [\<lparr>columns = [example_column ''a'' 0 UNCOMPRESSED 4], rg_num_rows = 10\<rparr>,
         \<lparr>columns = [example_column ''a'' 0 UNCOMPRESSED 4, example_column ''a'' 0 UNCOMPRESSED 4],
          rg_num_rows = 10\<rparr>],
      md_num_rows = 20,
      key_value_metadata = []\<rparr>"


text \<open>
  Three string columns of 10 rows: \<open>s\<close> and \<open>t\<close> of physical type \<open>BYTE_ARRAY\<close>, and between
  them \<open>f\<close> of physical type \<open>FIXED_LEN_BYTE_ARRAY\<close>.
\<close>

definition strings_md :: FileMetaData where
  "strings_md =
     \<lparr>schema = [example_element BYTE_ARRAY, example_element FIXED_LEN_BYTE_ARRAY,
                example_element BYTE_ARRAY],
      row_groups =
        [\<lparr>columns = [example_column ''s'' 0 UNCOMPRESSED 4, example_column ''f'' 1 UNCOMPRESSED 4,
                     example_column ''t'' 2 UNCOMPRESSED 4],
          rg_num_rows = 10\<rparr>],
      md_num_rows = 10,
      key_value_metadata = []\<rparr>"

text \<open>
  The example file without compression, and an environment whose decode kernel writes
  the valid count of each page, 7, and leaves the rest of the page record as it finds it.
\<close>

definition uncompressed_md :: FileMetaData where
  "uncompressed_md =
     example_md\<lparr>row_groups :=
       [\<lparr>columns = [example_column ''a'' 0 UNCOMPRESSED 4, example_column ''b'' 1 UNCOMPRESSED 4,
                    example_column ''idx'' 2 UNCOMPRESSED 0],
         rg_num_rows = 10\<rparr>]\<rparr>"

definition valid_counts_only :: "env \<Rightarrow> env" where
  "valid_counts_only e = e\<lparr>DecodePageData := (\<lambda>ps ds n. map (\<lambda>p. p\<lparr>valid_count := 7\<rparr>) ps)\<rparr>"

text \<open>
  A file without index hint whose first column has the empty name: two columns of 10
  rows, the second one named \<open>a\<close>.
\<close>

definition unnamed_column_md :: FileMetaData where
  "unnamed_column_md =
     \<lparr>schema = [example_element INT32, example_element INT32],
      row_groups =
        [\<lparr>columns = [example_column [] 0 UNCOMPRESSED 4, example_column ''a'' 1 UNCOMPRESSED 4],
          rg_num_rows = 10\<rparr>],
      md_num_rows = 10,
      key_value_metadata = []\<rparr>"

text \<open>
  An environment in which fresh host memory holds the page record \<open>q\<close>, and a record
  that says 3 values where the header kernel of the example environment finds 10.
\<close>

definition host_memory :: "PageInfo \<Rightarrow> env \<Rightarrow> env" where
  "host_memory q e = e\<lparr>uninitialized_host := (\<lambda>i. q)\<rparr>"

definition three_values :: PageInfo where
  "three_values = (example_page 0 0 0)\<lparr>num_values := 3\<rparr>"

text \<open>
  The read of the three string columns, each chunk with a data page and a dictionary
  page, in that environment.
\<close>

definition strings_env :: env where
  "strings_env = host_memory three_values (example_env True strings_md 1 1 0 0)"

section \<open>Properties\<close>

subsection \<open>Sequencing\<close>

lemma and_then_Continue [simp]: "and_then (Continue c) g = g c"
  by (simp add: and_then_def)

lemma and_then_Return [simp]: "and_then (Return r c) g = Return r c"
  by (simp add: and_then_def)

lemma and_then_Abort [simp]: "and_then (Abort x c) g = Abort x c"
  by (simp add: and_then_def)

lemma locals_of_simps [simp]:
  "locals_of (Continue c) = c" "locals_of (Return r c) = c" "locals_of (Abort x c) = c"
  by (simp_all add: locals_of_def)

lemma returned_simps [simp]:
  "returned (Continue c) = None" "returned (Return r c) = Some r" "returned (Abort x c) = None"
  by (simp_all add: returned_def)

subsection \<open>The frame of the file\<close>

lemma check_file_rejects:
  assumes "source a = Some r"
    and "header_magic r \<noteq> PARQUET_MAGIC e \<or> ender_magic r \<noteq> PARQUET_MAGIC e
         \<or> \<not> (0 < unat (footer_len r) \<and> unat (footer_len r) \<le> length r - 8)"
  shows "check_file e (init_locals a) = Return GDF_FILE_ERROR (init_locals a)"
proof -
  have src: "source (args (init_locals a)) = Some r"
    using assms(1) by (simp add: init_locals_def)
  show ?thesis
  proof (cases "r = []")
    case True
    then show ?thesis
      using src by (simp add: check_file_def LoadFile_def)
  next
    case False
    then have load: "LoadFile (source (args (init_locals a))) = Some r"
      using src by (simp add: LoadFile_def)
    show ?thesis
      using assms(2) unfolding check_file_def load
      by (auto simp: sizeof_file_header_s_def sizeof_file_ender_s_def unat_gt_0)
  qed
qed

text \<open>
  C5. A file whose header magic or trailing magic differs from the magic value, or whose
  footer length is not in \<open>(0, fileSize - 8]\<close>, makes the read return the file error
  from the frame check: the locals are still the initial ones and the trace is empty, so
  no parser call and no allocation has happened.
\<close>

theorem format_error_before_parse_and_allocation:
  assumes "source a = Some r"
    and "header_magic r \<noteq> PARQUET_MAGIC e \<or> ender_magic r \<noteq> PARQUET_MAGIC e
         \<or> \<not> (0 < unat (footer_len r) \<and> unat (footer_len r) \<le> length r - 8)"
  shows "read_parquet e a = Return GDF_FILE_ERROR (init_locals a)
         \<and> trace (locals_of (read_parquet e a)) = []"
proof -
  have "read_parquet e a = Return GDF_FILE_ERROR (init_locals a)"
    using check_file_rejects [OF assms]
    by (simp add: read_parquet_def build_descriptors_def open_and_parse_def)
  then show ?thesis
    by (simp add: init_locals_def)
qed

theorem format_error_before_parse_and_allocation_witness:
  "source (example_args bad_magic_file None) = Some bad_magic_file
   \<and> header_magic bad_magic_file \<noteq> PARQUET_MAGIC (example_env True example_md 1 0 0 0)
   \<and> read_parquet (example_env True example_md 1 0 0 0) (example_args bad_magic_file None)
       = Return GDF_FILE_ERROR (init_locals (example_args bad_magic_file None))
   \<and> trace (locals_of (read_parquet (example_env True example_md 1 0 0 0)
                         (example_args bad_magic_file None))) = []"
proof -
  have src: "source (example_args bad_magic_file None) = Some bad_magic_file"
    by (simp add: example_args_def)
  have bad: "header_magic bad_magic_file \<noteq> PARQUET_MAGIC (example_env True example_md 1 0 0 0)"
    by code_simp
  show ?thesis
    using src bad format_error_before_parse_and_allocation [OF src disjI1 [OF bad]]
    by (simp add: init_locals_def)
qed

subsection \<open>Vectors and column selection\<close>

text \<open>\<^verbatim>\<open>to_dot_string\<close> joins the components of a path with dots.\<close>

lemma fold_dot_append:
  "fold (\<lambda>q s. s @ ''.'' @ q) ps (r @ p) = r @ fold (\<lambda>q s. s @ ''.'' @ q) ps p"
  by (induction ps arbitrary: p) simp_all

lemma to_dot_string_dot_joined: "to_dot_string ps = dot_joined ps"
proof (induction ps rule: dot_joined.induct)
  case 1
  then show ?case by simp
next
  case (2 p)
  then show ?case by simp
next
  case (3 p q ps)
  have "to_dot_string (p # q # ps) = fold (\<lambda>q s. s @ ''.'' @ q) ps ((p @ ''.'') @ q)"
    by simp
  also have "\<dots> = (p @ ''.'') @ to_dot_string (q # ps)"
    by (simp only: fold_dot_append to_dot_string.simps)
  finally show ?case
    using 3 by simp
qed


lemma push_back_elements:
  assumes "used v \<le> length (storage v)"
  shows "elements (push_back x v) = elements v @ [x]"
    and "used (push_back x v) \<le> length (storage (push_back x v))"
    and "used (push_back x v) = Suc (used v)"
  using assms
  by (auto simp: elements_def push_back_def take_Suc_conv_app_nth upd_conv_take_nth_drop)

lemma fold_push_back_elements:
  assumes "used v \<le> length (storage v)"
  shows "elements (fold (\<lambda>(i, col) w. if P col then push_back i w else w) xs v)
           = elements v @ map fst (filter (\<lambda>(i, col). P col) xs)
         \<and> used (fold (\<lambda>(i, col) w. if P col then push_back i w else w) xs v)
           \<le> length (storage (fold (\<lambda>(i, col) w. if P col then push_back i w else w) xs v))
         \<and> used (fold (\<lambda>(i, col) w. if P col then push_back i w else w) xs v)
           = used v + length (filter (\<lambda>(i, col). P col) xs)"
  using assms
proof (induction xs arbitrary: v)
  case Nil
  then show ?case by simp
next
  case (Cons x xs)
  obtain i col where x: "x = (i, col)" by (cases x)
  show ?case
  proof (cases "P col")
    case True
    have "used (push_back i v) \<le> length (storage (push_back i v))"
      using Cons.prems by (rule push_back_elements(2))
    from Cons.IH [OF this] show ?thesis
      using True x push_back_elements(1,3) [OF Cons.prems, of i] by simp
  next
    case False
    then show ?thesis using Cons.IH [OF Cons.prems] x by simp
  qed
qed


lemma keepsI: "(\<And>c. proj (locals_of (stage c)) = proj c) \<Longrightarrow> keeps proj stage"
  by (simp add: keeps_def)

lemma keepsD: "keeps proj stage \<Longrightarrow> proj (locals_of (stage c)) = proj c"
  by (simp add: keeps_def)

lemma locals_of_and_then:
  "locals_of (and_then f g) = (case f of Continue c \<Rightarrow> locals_of (g c) | _ \<Rightarrow> locals_of f)"
  by (cases f) simp_all

lemma and_then_keeps:
  "keeps proj g \<Longrightarrow> proj (locals_of (and_then f g)) = proj (locals_of f)"
  by (cases f) (simp_all add: keeps_def)

lemma keeps_and_then:
  "keeps proj f \<Longrightarrow> keeps proj g \<Longrightarrow> keeps proj (\<lambda>c. and_then (f c) g)"
  by (simp add: keeps_def and_then_keeps)

lemma keeps_foreach:
  assumes "\<And>x. keeps proj (body x)"
  shows "keeps proj (foreach body xs)"
proof (rule keepsI)
  fix c
  show "proj (locals_of (foreach body xs c)) = proj c"
  proof (induction xs arbitrary: c)
    case Nil
    then show ?case by simp
  next
    case (Cons x xs)
    have "keeps proj (foreach body xs)"
      using Cons.IH by (simp add: keeps_def)
    then show ?case
      using assms [of x] by (simp add: and_then_keeps keepsD)
  qed
qed

lemma keeps_GDF_TRY: "keeps proj (GDF_TRY r)"
  by (simp add: keeps_def GDF_TRY_def)

lemma check_file_args: "keeps args (check_file e)"
  by (simp add: keeps_def check_file_def split: option.splits)

lemma read_metadata_args: "keeps args (read_metadata e)"
  by (simp add: keeps_def read_metadata_def print_metadata_def emit_def Let_def)

lemma open_and_parse_args: "args (locals_of (open_and_parse e a)) = a"
  unfolding open_and_parse_def
  by (simp add: and_then_keeps [OF read_metadata_args] keepsD [OF check_file_args])
     (simp add: init_locals_def)

lemma select_columns_args: "keeps args select_columns"
  by (simp add: keeps_def select_columns_def emit_def Let_def split: sum.splits list.splits)

lemma select_columns_no_columns:
  assumes "row_groups (file_md c) = rg # rgs" and "columns rg = []"
  shows "select_columns c = Return GDF_DATASET_EMPTY (emit (Printed ''No columns found.'') c)"
  using assms by (simp add: select_columns_def)

lemma filter_columns_used:
  "used (filter_columns names cs v)
     = length (filter (\<lambda>col. to_dot_string (path_in_schema (meta_data col)) \<in> set names) cs)"
proof -
  have "used (clear v) \<le> length (storage (clear v))"
    by (simp add: clear_def)
  from fold_push_back_elements [OF this, of "\<lambda>col. to_dot_string (path_in_schema (meta_data col)) \<in> set names" "zip [0..<length cs] cs"]
  have "used (filter_columns names cs v)
          = length (filter (\<lambda>(i, col). to_dot_string (path_in_schema (meta_data col)) \<in> set names) (zip [0..<length cs] cs))"
    by (simp add: filter_columns_def clear_def)
  also have "\<dots> = length (map snd (filter (\<lambda>(i, col). to_dot_string (path_in_schema (meta_data col)) \<in> set names) (zip [0..<length cs] cs)))"
    by simp
  also have "map snd (filter (\<lambda>(i, col). to_dot_string (path_in_schema (meta_data col)) \<in> set names) (zip [0..<length cs] cs))
      = filter (\<lambda>col. to_dot_string (path_in_schema (meta_data col)) \<in> set names) (map snd (zip [0..<length cs] cs))"
    unfolding filter_map by (simp add: comp_def case_prod_unfold)
  finally show ?thesis by simp
qed

lemma select_columns_no_match:
  assumes "row_groups (file_md c) = rg # rgs" and "columns rg \<noteq> []"
    and "use_cols (args c) = Some u" and "get_index_col (file_md c) = Inr name"
    and "\<forall>col \<in> set (columns rg). to_dot_string (path_in_schema (meta_data col)) \<notin> set (u @ [name])"
  shows "returned (select_columns c) = Some GDF_SUCCESS"
proof -
  have "filter (\<lambda>col. to_dot_string (path_in_schema (meta_data col)) \<in> set (u @ [name])) (columns rg) = []"
    using assms(5) by (simp add: filter_empty_conv)
  then have "used (filter_columns (u @ [name]) (columns rg) (iota_vector (length (columns rg)))) = 0"
    by (simp add: filter_columns_used)
  then show ?thesis
    using assms(1-4) by (simp add: select_columns_def Let_def)
qed

text \<open>
  C10. Once the file is opened and parsed: if the first row group has no column, the read
  returns \<open>GDF_DATASET_EMPTY\<close>, which is neither a fault nor \<open>GDF_SUCCESS\<close>; if an
  allow-list is given and no column of the first row group has a name in the allow-list
  or the name of the index column, the read returns \<open>GDF_SUCCESS\<close>. In both cases the
  arguments are as the caller passed them: no column is handed over.
\<close>

theorem empty_outcomes:
  assumes "open_and_parse e a = Continue c" and "row_groups (file_md c) = rg # rgs"
  shows "(columns rg = [] \<longrightarrow>
            returned (read_parquet e a) = Some GDF_DATASET_EMPTY
            \<and> args (locals_of (read_parquet e a)) = a)
       \<and> (columns rg \<noteq> [] \<and> use_cols a = Some u \<and> get_index_col (file_md c) = Inr name
          \<and> (\<forall>col \<in> set (columns rg).
                to_dot_string (path_in_schema (meta_data col)) \<notin> set (u @ [name])) \<longrightarrow>
            returned (read_parquet e a) = Some GDF_SUCCESS
            \<and> args (locals_of (read_parquet e a)) = a)"
proof -
  have a: "args c = a"
    using open_and_parse_args [of e a] assms(1) by simp
  have run: "read_parquet e a =
      and_then (and_then (and_then (and_then (and_then (and_then (and_then
        (select_columns c) init_columns) (build_chunks e)) (decode_page_headers e))
        (alloc_column_data e)) build_string_dictionaries) (decode_page_data e)) transfer_ownership"
    by (simp add: read_parquet_def build_descriptors_def assms(1))
  have early: "read_parquet e a = Return r c'" if "select_columns c = Return r c'" for r c'
    using that by (simp add: run)
  have kept: "args (locals_of (select_columns c)) = a"
    using keepsD [OF select_columns_args, of c] a by simp
  show ?thesis
  proof (intro conjI impI)
    assume "columns rg = []"
    from select_columns_no_columns [OF assms(2) this]
    have "read_parquet e a = Return GDF_DATASET_EMPTY (emit (Printed ''No columns found.'') c)"
      by (rule early)
    then show "returned (read_parquet e a) = Some GDF_DATASET_EMPTY"
      and "args (locals_of (read_parquet e a)) = a"
      using a by (simp_all add: emit_def)
  next
    assume h: "columns rg \<noteq> [] \<and> use_cols a = Some u \<and> get_index_col (file_md c) = Inr name
          \<and> (\<forall>col \<in> set (columns rg).
                to_dot_string (path_in_schema (meta_data col)) \<notin> set (u @ [name]))"
    then have "returned (select_columns c) = Some GDF_SUCCESS"
      using select_columns_no_match [OF assms(2), of u name] a by simp
    then obtain c' where sel: "select_columns c = Return GDF_SUCCESS c'"
      by (cases "select_columns c") (simp_all add: returned_def)
    from early [OF sel] show "returned (read_parquet e a) = Some GDF_SUCCESS"
      by simp
    from early [OF sel] kept sel show "args (locals_of (read_parquet e a)) = a"
      by simp
  qed
qed

theorem empty_outcomes_witness:
  "open_and_parse (example_env True no_columns_md 1 0 0 0) (example_args example_file None)
     = Continue (locals_of (open_and_parse (example_env True no_columns_md 1 0 0 0)
                              (example_args example_file None)))
   \<and> row_groups (file_md (locals_of (open_and_parse (example_env True no_columns_md 1 0 0 0)
                                       (example_args example_file None))))
       = [\<lparr>columns = [], rg_num_rows = 0\<rparr>]
   \<and> returned (read_parquet (example_env True no_columns_md 1 0 0 0)
                 (example_args example_file None)) = Some GDF_DATASET_EMPTY
   \<and> open_and_parse (example_env True no_hint_md 1 0 0 0) (example_args example_file (Some [''zz'']))
     = Continue (locals_of (open_and_parse (example_env True no_hint_md 1 0 0 0)
                              (example_args example_file (Some [''zz'']))))
   \<and> row_groups (file_md (locals_of (open_and_parse (example_env True no_hint_md 1 0 0 0)
                                       (example_args example_file (Some [''zz''])))))
       = row_groups example_md
   \<and> returned (read_parquet (example_env True no_hint_md 1 0 0 0)
                 (example_args example_file (Some [''zz'']))) = Some GDF_SUCCESS
   \<and> args (locals_of (read_parquet (example_env True no_hint_md 1 0 0 0)
                        (example_args example_file (Some [''zz''])))) =
       example_args example_file (Some [''zz''])"
proof -
  let ?e1 = "example_env True no_columns_md 1 0 0 0" and ?a1 = "example_args example_file None"
  let ?e2 = "example_env True no_hint_md 1 0 0 0"
  let ?a2 = "example_args example_file (Some [''zz''])"
  have "case open_and_parse ?e1 ?a1 of Continue c \<Rightarrow> True | _ \<Rightarrow> False"
    by code_simp
  then have p1: "open_and_parse ?e1 ?a1 = Continue (locals_of (open_and_parse ?e1 ?a1))"
    by (cases "open_and_parse ?e1 ?a1") simp_all
  have r1: "row_groups (file_md (locals_of (open_and_parse ?e1 ?a1)))
              = \<lparr>columns = [], rg_num_rows = 0\<rparr> # []"
    by code_simp
  have "case open_and_parse ?e2 ?a2 of Continue c \<Rightarrow> True | _ \<Rightarrow> False"
    by code_simp
  then have p2: "open_and_parse ?e2 ?a2 = Continue (locals_of (open_and_parse ?e2 ?a2))"
    by (cases "open_and_parse ?e2 ?a2") simp_all
  have r2: "row_groups (file_md (locals_of (open_and_parse ?e2 ?a2)))
              = hd (row_groups example_md) # tl (row_groups example_md)"
    by code_simp
  have h2: "columns (hd (row_groups example_md)) \<noteq> [] \<and> use_cols ?a2 = Some [''zz'']
        \<and> get_index_col (file_md (locals_of (open_and_parse ?e2 ?a2))) = Inr []
        \<and> (\<forall>col \<in> set (columns (hd (row_groups example_md))).
              to_dot_string (path_in_schema (meta_data col)) \<notin> set ([''zz''] @ [[]]))"
    by code_simp
  have rg: "row_groups example_md = hd (row_groups example_md) # tl (row_groups example_md)"
    by code_simp
  show ?thesis
    using p1 r1 p2 r2 rg h2
      empty_outcomes [OF p1 r1, of "[]" "[]"]
      empty_outcomes [OF p2 r2, of "[''zz'']" "[]"]
    by simp
qed

subsection \<open>Conditions the read reports on the console and then ignores\<close>

text \<open>
  C2. The parser rejects the footer after it has filled in the metadata of the example
  file. The read prints the error between the two parser calls, runs the whole pipeline
  and returns \<open>GDF_SUCCESS\<close> with three columns.
\<close>

theorem parse_failure_is_only_printed:
  "returned (read_parquet (example_env False example_md 1 0 0 0) (example_args example_file None))
     = Some GDF_SUCCESS
   \<and> take 3 (trace (locals_of (read_parquet (example_env False example_md 1 0 0 0)
                                  (example_args example_file None))))
     = [Call_cp_read, Printed ''Error parsing file metadata'', Call_InitSchema]
   \<and> last (trace (locals_of (read_parquet (example_env False example_md 1 0 0 0)
                                (example_args example_file None))))
     = Launch K_DecodePageData
   \<and> map_option (map col_name)
        (arg_data (args (locals_of (read_parquet (example_env False example_md 1 0 0 0)
                                      (example_args example_file None)))))
     = Some [''a'', ''b'', ''idx'']"
  by code_simp

text \<open>
  C3. The decompression kernel reports status 1 for the page of the compressed chunk of
  the example file. The read prints the status and returns \<open>GDF_SUCCESS\<close> with three
  columns.
\<close>

theorem inflate_failure_is_only_printed:
  "returned (read_parquet (example_env True example_md 1 0 0 1) (example_args example_file None))
     = Some GDF_SUCCESS
   \<and> filter (\<lambda>ev. case ev of Printed_status i s n \<Rightarrow> True | _ \<Rightarrow> False)
        (trace (locals_of (read_parquet (example_env True example_md 1 0 0 1)
                             (example_args example_file None))))
     = [Printed_status 0 1 0]
   \<and> map_option (map col_name)
        (arg_data (args (locals_of (read_parquet (example_env True example_md 1 0 0 1)
                                      (example_args example_file None)))))
     = Some [''a'', ''b'', ''idx'']"
  by code_simp

text \<open>
  C4. Three chunks of the file with the repeated column match the selected column, the
  descriptor array holds two. The read prints a line for the third chunk, builds two
  descriptors and returns \<open>GDF_SUCCESS\<close>.
\<close>

theorem surplus_chunk_is_dropped:
  "returned (read_parquet (example_env True repeated_column_md 1 0 0 0)
               (example_args example_file None)) = Some GDF_SUCCESS
   \<and> max_num_chunks (state (locals_of (read_parquet (example_env True repeated_column_md 1 0 0 0)
                                          (example_args example_file None)))) = 2
   \<and> length (chunk_desc (state (locals_of (read_parquet (example_env True repeated_column_md 1 0 0 0)
                                               (example_args example_file None))))) = 2
   \<and> filter (\<lambda>ev. case ev of Printed s \<Rightarrow> True | _ \<Rightarrow> False)
        (trace (locals_of (read_parquet (example_env True repeated_column_md 1 0 0 0)
                             (example_args example_file None))))
     = [Printed ''Too many chunks!!!'']"
  by code_simp

subsection \<open>What the blocks of the pipeline leave alone\<close>

lemma never_succeedsD: "never_succeeds stage \<Longrightarrow> stage c \<noteq> Return GDF_SUCCESS c'"
  by (simp add: never_succeeds_def)

lemma and_then_success:
  assumes "and_then f g = Return GDF_SUCCESS c" and "\<And>c'. f \<noteq> Return GDF_SUCCESS c'"
  shows "\<exists>c'. f = Continue c' \<and> g c' = Return GDF_SUCCESS c"
  using assms by (cases f) auto

lemma never_succeeds_and_then:
  assumes "\<And>c'. f \<noteq> Return GDF_SUCCESS c'" and "never_succeeds g"
  shows "and_then f g \<noteq> Return GDF_SUCCESS c"
  using assms by (cases f) (simp_all add: never_succeeds_def)

lemma never_succeeds_foreach:
  assumes "\<And>x. never_succeeds (body x)"
  shows "never_succeeds (foreach body xs)"
  unfolding never_succeeds_def
proof (intro allI)
  fix c c'
  show "foreach body xs c \<noteq> Return GDF_SUCCESS c'"
  proof (induction xs arbitrary: c c')
    case Nil
    then show ?case by simp
  next
    case (Cons x xs)
    have "never_succeeds (foreach body xs)"
      using Cons.IH by (simp add: never_succeeds_def)
    then show ?case
      using never_succeedsD [OF assms [of x]] by (simp add: never_succeeds_and_then)
  qed
qed

lemma GDF_TRY_never_succeeds: "GDF_TRY r c \<noteq> Return GDF_SUCCESS c'"
  by (simp add: GDF_TRY_def)

lemma build_chunks_never_succeeds: "never_succeeds (build_chunks e)"
proof -
  have a: "never_succeeds (add_chunk e rowgroup col k column)" for rowgroup col k column
    by (simp add: never_succeeds_def add_chunk_def Let_def split: option.splits)
  have m: "never_succeeds (match_chunk e rowgroup col)" for rowgroup col
    using a by (simp add: never_succeeds_def match_chunk_def Let_def split: option.splits prod.splits)
  have s: "never_succeeds (scan_rowgroup e rowgroup)" for rowgroup
    unfolding never_succeeds_def scan_rowgroup_def
    by (intro allI never_succeeds_and_then never_succeedsD [OF never_succeeds_foreach] m)
       (simp add: never_succeeds_def)
  show ?thesis
    unfolding never_succeeds_def build_chunks_def
    by (intro allI never_succeeds_and_then never_succeeds_foreach s)
       (simp add: alloc_chunks_def Let_def GDF_TRY_never_succeeds)
qed

lemma keeps_comp: "keeps p stage \<Longrightarrow> keeps (\<lambda>c. f (p c)) stage"
  by (simp add: keeps_def)

lemma keeps_Continue: "(\<And>c. p (f c) = p c) \<Longrightarrow> keeps p (\<lambda>c. Continue (f c))"
  by (simp add: keeps_def)

lemma dispatch_fields:
  "keeps outside (dispatch_DecodePageHeaders e site)"
  "keeps cols (dispatch_DecodePageHeaders e site)"
  "keeps chunk_map (dispatch_DecodePageHeaders e site)"
  "keeps l_num_rows (dispatch_DecodePageHeaders e site)"
  by (simp_all add: keeps_def dispatch_DecodePageHeaders_def GDF_TRY_def emit_def Let_def outside_def)

lemma count_pages_fields:
  "keeps outside (count_pages e)"
  "keeps cols (count_pages e)"
  "keeps chunk_map (count_pages e)"
  "keeps l_num_rows (count_pages e)"
  unfolding count_pages_def
  by (rule keeps_and_then, rule dispatch_fields, simp add: keeps_def count_total_pages_def outside_def)+

lemma alloc_pages_fields:
  "keeps outside (alloc_pages e)"
  "keeps cols (alloc_pages e)"
  "keeps chunk_map (alloc_pages e)"
  "keeps l_num_rows (alloc_pages e)"
  by (simp_all add: keeps_def alloc_pages_def GDF_TRY_def emit_def Let_def outside_def)

lemma store_page_info_fields:
  "keeps outside (store_page_info e)"
  "keeps cols (store_page_info e)"
  "keeps chunk_map (store_page_info e)"
  "keeps l_num_rows (store_page_info e)"
  using dispatch_fields [of e Try_store_pages]
  by (simp_all add: keeps_def store_page_info_def attach_page_info_def outside_def)

lemma inflate_pages_fields:
  "keeps outside (inflate_pages e chunks cnts)"
  "keeps cols (inflate_pages e chunks cnts)"
  "keeps chunk_map (inflate_pages e chunks cnts)"
  "keeps l_num_rows (inflate_pages e chunks cnts)"
  by (simp_all add: keeps_def inflate_pages_def emit_def Let_def outside_def split: option.splits)

lemma decompress_pages_fields:
  "keeps outside (decompress_pages e)"
  "keeps cols (decompress_pages e)"
  "keeps chunk_map (decompress_pages e)"
  "keeps l_num_rows (decompress_pages e)"
  using inflate_pages_fields
  by (simp_all add: keeps_def decompress_pages_def Let_def outside_def split: option.splits prod.splits)

lemma decode_page_headers_keeps:
  assumes "\<And>site. keeps p (dispatch_DecodePageHeaders e site)"
    and "keeps p (count_pages e)" and "keeps p (alloc_pages e)" and "keeps p (store_page_info e)"
    and "keeps p (decompress_pages e)"
  shows "keeps p (decode_page_headers e)"
proof -
  have "keeps p (\<lambda>c1. if total_pages (state c1) > 0
             then and_then (and_then (alloc_pages e c1) (store_page_info e)) (decompress_pages e)
             else Continue c1)"
    using assms(3-5) by (simp add: keeps_def and_then_keeps)
  then show ?thesis
    unfolding decode_page_headers_def by (rule keeps_and_then [OF assms(2)])
qed

lemma decode_page_headers_fields:
  "keeps outside (decode_page_headers e)"
  "keeps cols (decode_page_headers e)"
  "keeps chunk_map (decode_page_headers e)"
  "keeps l_num_rows (decode_page_headers e)"
  by (rule decode_page_headers_keeps, rule dispatch_fields, rule count_pages_fields,
      rule alloc_pages_fields, rule store_page_info_fields, rule decompress_pages_fields)+

lemma keeps_cols_idents: "keeps cols stage \<Longrightarrow> keeps col_idents stage"
  by (simp add: keeps_def col_idents_def)

lemma keeps_cols_nulls: "keeps cols stage \<Longrightarrow> keeps null_counts stage"
  by (simp add: keeps_def null_counts_def)

lemma add_chunk_fields:
  "keeps outside (add_chunk e rowgroup col k column)"
  "keeps cols (add_chunk e rowgroup col k column)"
  by (simp_all add: keeps_def add_chunk_def emit_def Let_def outside_def split: option.splits)

lemma match_chunk_fields:
  "keeps outside (match_chunk e rowgroup col)"
  "keeps cols (match_chunk e rowgroup col)"
  using add_chunk_fields
  by (simp_all add: keeps_def match_chunk_def Let_def split: option.splits prod.splits)

lemma scan_rowgroup_fields:
  "keeps outside (scan_rowgroup e rowgroup)"
  "keeps cols (scan_rowgroup e rowgroup)"
  unfolding scan_rowgroup_def
  by (rule keeps_and_then, rule keeps_foreach, rule match_chunk_fields,
      simp add: keeps_def outside_def)+

lemma build_chunks_fields:
  "keeps outside (build_chunks e)"
  "keeps cols (build_chunks e)"
  unfolding build_chunks_def
  by (rule keepsI,
      simp add: and_then_keeps [OF keeps_foreach] scan_rowgroup_fields,
      simp add: alloc_chunks_def GDF_TRY_def emit_def Let_def outside_def)+

lemma alloc_one_column_ident:
  "col_ident (fst (alloc_one_column e g)) = col_ident g"
  "null_count (fst (alloc_one_column e g)) = null_count g"
  by (simp_all add: alloc_one_column_def Let_def col_ident_def)

lemma alloc_column_data_fields:
  "keeps outside (alloc_column_data e)"
  "keeps chunk_map (alloc_column_data e)"
  "keeps l_num_rows (alloc_column_data e)"
  "keeps state (alloc_column_data e)"
  "keeps col_idents (alloc_column_data e)"
  "keeps null_counts (alloc_column_data e)"
  by (simp_all add: keeps_def alloc_column_data_def GDF_TRY_def Let_def outside_def
        col_idents_def null_counts_def comp_def alloc_one_column_ident)

lemma build_string_dictionaries_fields:
  "keeps outside build_string_dictionaries"
  "keeps cols build_string_dictionaries"
  "keeps chunk_map build_string_dictionaries"
  "keeps l_num_rows build_string_dictionaries"
  by (simp_all add: keeps_def build_string_dictionaries_def alloc_dictionaries_def emit_def
        Let_def outside_def split: option.splits)

lemma read_at_Some: "read_at xs i = Some x \<longleftrightarrow> i < length xs \<and> xs ! i = x"
  by (auto simp: read_at_def)

lemma add_nulls_ident: "map col_ident (add_nulls n cmap p gs) = map col_ident gs"
  by (auto simp: add_nulls_def Let_def read_at_Some map_update col_ident_def
        split: option.splits prod.splits intro!: list_update_same_conv [THEN iffD2])

lemma fold_add_nulls_ident: "map col_ident (fold (add_nulls n cmap) ps gs) = map col_ident gs"
  by (induction ps arbitrary: gs) (simp_all add: add_nulls_ident)

lemma decode_page_data_fields:
  "keeps outside (decode_page_data e)"
  "keeps chunk_map (decode_page_data e)"
  "keeps l_num_rows (decode_page_data e)"
  "keeps col_idents (decode_page_data e)"
  by (simp_all add: keeps_def decode_page_data_def emit_def Let_def outside_def col_idents_def
        fold_add_nulls_ident)

lemma init_columns_never_succeeds: "never_succeeds init_columns"
proof -
  have one: "never_succeeds (init_column i)" for i
    by (simp add: never_succeeds_def init_column_def Let_def split: option.splits)
  show ?thesis
    unfolding never_succeeds_def init_columns_def Let_def
    by (intro allI never_succeedsD never_succeeds_foreach one)
qed

lemma decode_page_headers_never_succeeds: "never_succeeds (decode_page_headers e)"
proof -
  have d: "never_succeeds (dispatch_DecodePageHeaders e site)" for site
    by (simp add: never_succeeds_def dispatch_DecodePageHeaders_def Let_def GDF_TRY_never_succeeds)
  have s: "never_succeeds (store_page_info e)"
    using d by (simp add: never_succeeds_def store_page_info_def)
  have i: "never_succeeds (inflate_pages e chunks cnts)" for chunks cnts
    by (simp add: never_succeeds_def inflate_pages_def Let_def split: option.splits)
  have z: "never_succeeds (decompress_pages e)"
    using i by (simp add: never_succeeds_def decompress_pages_def Let_def split: option.splits prod.splits)
  have a: "alloc_pages e c \<noteq> Return GDF_SUCCESS c'" for c c'
    by (simp add: alloc_pages_def Let_def GDF_TRY_never_succeeds)
  have c: "count_pages e c \<noteq> Return GDF_SUCCESS c'" for c c'
    unfolding count_pages_def
    by (rule never_succeeds_and_then) (simp_all add: never_succeedsD [OF d] never_succeeds_def)
  have rest: "never_succeeds (\<lambda>c1. if total_pages (state c1) > 0
             then and_then (and_then (alloc_pages e c1) (store_page_info e)) (decompress_pages e)
             else Continue c1)"
  proof -
    have "and_then (and_then (alloc_pages e c1) (store_page_info e)) (decompress_pages e)
            \<noteq> Return GDF_SUCCESS c'" for c1 c'
      by (intro never_succeeds_and_then a s z)
    then show ?thesis
      by (simp add: never_succeeds_def)
  qed
  show ?thesis
    unfolding never_succeeds_def decode_page_headers_def
    by (intro allI never_succeeds_and_then c rest)
qed

lemma alloc_column_data_never_succeeds: "never_succeeds (alloc_column_data e)"
  by (simp add: never_succeeds_def alloc_column_data_def Let_def GDF_TRY_never_succeeds)

lemma build_string_dictionaries_never_succeeds: "never_succeeds build_string_dictionaries"
  by (simp add: never_succeeds_def build_string_dictionaries_def Let_def split: option.splits)

lemma decode_page_data_never_succeeds: "never_succeeds (decode_page_data e)"
  by (simp add: never_succeeds_def decode_page_data_def Let_def)

lemma open_and_parse_never_succeeds: "open_and_parse e a \<noteq> Return GDF_SUCCESS c"
proof -
  have "check_file e c0 \<noteq> Return GDF_SUCCESS c'" for c0 c'
    by (simp add: check_file_def split: option.splits)
  moreover have "never_succeeds (read_metadata e)"
    by (simp add: never_succeeds_def read_metadata_def print_metadata_def Let_def)
  ultimately show ?thesis
    unfolding open_and_parse_def by (intro never_succeeds_and_then)
qed

lemma read_parquet_success:
  assumes "read_parquet e a = Return GDF_SUCCESS c"
  obtains (nothing_selected) c0 where
      "open_and_parse e a = Continue c0" "select_columns c0 = Return GDF_SUCCESS c"
  | (columns_returned) c0 c1 c2 c3 c4 c5 c6 c7 where
      "open_and_parse e a = Continue c0" "select_columns c0 = Continue c1"
      "init_columns c1 = Continue c2" "build_chunks e c2 = Continue c3"
      "decode_page_headers e c3 = Continue c4" "alloc_column_data e c4 = Continue c5"
      "build_string_dictionaries c5 = Continue c6" "decode_page_data e c6 = Continue c7"
      "transfer_ownership c7 = Return GDF_SUCCESS c"
proof -
  obtain c0 where c0: "open_and_parse e a = Continue c0"
    using assms open_and_parse_never_succeeds [of e a]
    by (cases "open_and_parse e a") (auto simp: read_parquet_def build_descriptors_def)
  have run: "and_then (and_then (and_then (and_then (and_then (and_then (and_then
        (select_columns c0) init_columns) (build_chunks e)) (decode_page_headers e))
        (alloc_column_data e)) build_string_dictionaries) (decode_page_data e)) transfer_ownership
        = Return GDF_SUCCESS c"
    using assms by (simp add: read_parquet_def build_descriptors_def c0)
  show thesis
  proof (cases "select_columns c0")
    case (Continue c1)
    note ns = never_succeedsD [OF init_columns_never_succeeds]
      never_succeedsD [OF build_chunks_never_succeeds]
      never_succeedsD [OF decode_page_headers_never_succeeds]
      never_succeedsD [OF alloc_column_data_never_succeeds]
      never_succeedsD [OF build_string_dictionaries_never_succeeds]
      never_succeedsD [OF decode_page_data_never_succeeds]
    from run Continue have r1: "and_then (and_then (and_then (and_then (and_then (and_then
        (init_columns c1) (build_chunks e)) (decode_page_headers e))
        (alloc_column_data e)) build_string_dictionaries) (decode_page_data e)) transfer_ownership
        = Return GDF_SUCCESS c"
      by simp
    obtain c2 where c2: "init_columns c1 = Continue c2"
      using r1 ns(1) [of c1] by (cases "init_columns c1") auto
    obtain c3 where c3: "build_chunks e c2 = Continue c3"
      using r1 c2 ns(2) [of e c2] by (cases "build_chunks e c2") auto
    obtain c4 where c4: "decode_page_headers e c3 = Continue c4"
      using r1 c2 c3 ns(3) [of e c3] by (cases "decode_page_headers e c3") auto
    obtain c5 where c5: "alloc_column_data e c4 = Continue c5"
      using r1 c2 c3 c4 ns(4) [of e c4] by (cases "alloc_column_data e c4") auto
    obtain c6 where c6: "build_string_dictionaries c5 = Continue c6"
      using r1 c2 c3 c4 c5 ns(5) [of c5] by (cases "build_string_dictionaries c5") auto
    obtain c7 where c7: "decode_page_data e c6 = Continue c7"
      using r1 c2 c3 c4 c5 c6 ns(6) [of e c6] by (cases "decode_page_data e c6") auto
    have "transfer_ownership c7 = Return GDF_SUCCESS c"
      using r1 c2 c3 c4 c5 c6 c7 by simp
    then show ?thesis
      using columns_returned c0 Continue c2 c3 c4 c5 c6 c7 by blast
  next
    case (Return r c')
    then show ?thesis using run nothing_selected c0 by simp
  next
    case (Abort x c')
    then show ?thesis using run by simp
  qed
qed

lemma zip_upt_filter_nth:
  "map (\<lambda>i. cs ! i) (map fst (filter (\<lambda>(i, col). P col) (zip [0..<length cs] cs))) = filter P cs"
proof -
  have "map (\<lambda>i. cs ! i) (map fst (filter (\<lambda>(i, col). P col) (zip [0..<length cs] cs)))
        = map (\<lambda>(i, col). cs ! i) (filter (\<lambda>(i, col). P col) (zip [0..<length cs] cs))"
    by (simp add: comp_def case_prod_unfold)
  also have "\<dots> = map snd (filter (\<lambda>(i, col). P col) (zip [0..<length cs] cs))"
    by (rule map_cong) (auto simp: in_set_zip)
  also have "\<dots> = filter P (map snd (zip [0..<length cs] cs))"
    unfolding filter_map by (simp add: comp_def case_prod_unfold)
  finally show ?thesis by simp
qed

lemma zip_upt_filter_range:
  "i \<in> set (map fst (filter (\<lambda>(i, col). P col) (zip [0..<length cs] cs))) \<Longrightarrow> i < length cs"
  by (auto simp: in_set_zip)

lemma member_allow_list:
  "x \<in> set (u @ [name]) \<longleftrightarrow> x \<in> set u \<or> x = name"
  by auto

lemma filter_columns_elements:
  "elements (filter_columns (u @ [name]) cs v)
     = map fst (filter (\<lambda>(i, col). column_name col \<in> set u \<or> column_name col = name)
                  (zip [0..<length cs] cs))"
  "used (filter_columns (u @ [name]) cs v) \<le> length (storage (filter_columns (u @ [name]) cs v))"
proof -
  let ?P = "\<lambda>col. column_name col \<in> set u \<or> column_name col = name"
  have "(\<lambda>(i, col) w. if to_dot_string (path_in_schema (meta_data col)) \<in> set (u @ [name])
                        then push_back i w else w)
        = (\<lambda>(i, col) w. if ?P col then push_back i w else w)"
    by (auto simp: column_name_def to_dot_string_dot_joined fun_eq_iff)
  then have eq: "filter_columns (u @ [name]) cs v
      = fold (\<lambda>(i, col) w. if ?P col then push_back i w else w) (zip [0..<length cs] cs) (clear v)"
    unfolding filter_columns_def by (rule arg_cong [where f = "\<lambda>f. fold f _ _"])
  have "used (clear v) \<le> length (storage (clear v))"
    by (simp add: clear_def)
  note F = fold_push_back_elements [OF this, of ?P "zip [0..<length cs] cs"]
  have e: "elements (clear v) = []"
    by (simp add: elements_def clear_def)
  show "elements (filter_columns (u @ [name]) cs v)
     = map fst (filter (\<lambda>(i, col). ?P col) (zip [0..<length cs] cs))"
    unfolding eq using F e by simp
  show "used (filter_columns (u @ [name]) cs v) \<le> length (storage (filter_columns (u @ [name]) cs v))"
    unfolding eq using F by simp
qed

lemma chosen_indexes_props:
  "used (chosen_indexes allow_list name cs) \<le> length (storage (chosen_indexes allow_list name cs))"
  "map (\<lambda>i. cs ! i) (elements (chosen_indexes allow_list name cs)) = selected_columns allow_list name cs"
  "\<forall>i \<in> set (elements (chosen_indexes allow_list name cs)). i < length cs"
proof -
  show "used (chosen_indexes allow_list name cs) \<le> length (storage (chosen_indexes allow_list name cs))"
    by (cases allow_list) (simp_all add: chosen_indexes_def iota_vector_def filter_columns_elements(2))
  show "map (\<lambda>i. cs ! i) (elements (chosen_indexes allow_list name cs)) = selected_columns allow_list name cs"
  proof (cases allow_list)
    case None
    then show ?thesis
      by (simp add: chosen_indexes_def selected_columns_def elements_def iota_vector_def map_nth)
  next
    case (Some u)
    show ?thesis
      unfolding Some chosen_indexes_def selected_columns_def option.case
        filter_columns_elements(1)
      by (rule zip_upt_filter_nth)
  qed
  show "\<forall>i \<in> set (elements (chosen_indexes allow_list name cs)). i < length cs"
  proof (cases allow_list)
    case None
    then show ?thesis by (simp add: chosen_indexes_def elements_def iota_vector_def)
  next
    case (Some u)
    show ?thesis
      unfolding Some chosen_indexes_def option.case filter_columns_elements(1)
      by (auto simp: in_set_zip)
  qed
qed

lemma select_columns_unfold:
  assumes "row_groups (file_md c) = rg # rgs" and "columns rg \<noteq> []"
    and "get_index_col (file_md c) = Inr name"
  shows "select_columns c =
     (let c1 = c\<lparr>index_col_name := name,
                 col_indexes := chosen_indexes (use_cols (args c)) name (columns rg)\<rparr>
      in if used (chosen_indexes (use_cols (args c)) name (columns rg)) = 0
         then Return GDF_SUCCESS (emit (Printed ''No matching columns found.'') c1)
         else Continue c1)"
  using assms
  by (cases "use_cols (args c)") (simp_all add: select_columns_def chosen_indexes_def Let_def)

lemma select_columns_Continue:
  assumes "select_columns c = Continue c1"
  obtains rg rgs name where
    "row_groups (file_md c) = rg # rgs" "get_index_col (file_md c) = Inr name"
    "c1 = c\<lparr>index_col_name := name,
            col_indexes := chosen_indexes (use_cols (args c)) name (columns rg)\<rparr>"
    "0 < used (col_indexes c1)"
proof -
  obtain rg rgs where rg: "row_groups (file_md c) = rg # rgs"
    using assms by (cases "row_groups (file_md c)") (simp_all add: select_columns_def)
  have ne: "columns rg \<noteq> []"
    using assms rg by (auto simp: select_columns_def)
  obtain name where name: "get_index_col (file_md c) = Inr name"
    using assms rg ne by (cases "get_index_col (file_md c)") (simp_all add: select_columns_def)
  show thesis
    using that [OF rg name] assms unfolding select_columns_unfold [OF rg ne name] Let_def
    by (auto split: if_splits)
qed

lemma select_columns_Success:
  assumes "select_columns c = Return GDF_SUCCESS c1"
    and "row_groups (file_md c) = rg # rgs" and "get_index_col (file_md c) = Inr name"
  shows "selected_columns (use_cols (args c)) name (columns rg) = [] \<and> args c1 = args c"
proof -
  have ne: "columns rg \<noteq> []"
    using assms by (auto simp: select_columns_def)
  have z: "used (chosen_indexes (use_cols (args c)) name (columns rg)) = 0"
    and a: "args c1 = args c"
    using assms(1) unfolding select_columns_unfold [OF assms(2) ne assms(3)] Let_def
    by (auto simp: emit_def split: if_splits)
  have "elements (chosen_indexes (use_cols (args c)) name (columns rg)) = []"
    using z by (simp add: elements_def)
  then show ?thesis
    using chosen_indexes_props(2) [of "columns rg" "use_cols (args c)" name] a by simp
qed

lemma init_column_Continue:
  assumes "init_column i c = Continue c'"
  shows "\<exists>g. cols c' = cols c @ [g] \<and> expected_at c i = Some (col_summary g) \<and> null_count g = 0"
    and "col_indexes c' = col_indexes c" and "file_md c' = file_md c" and "args c' = args c"
    and "index_col_name c' = index_col_name c" and "num_columns c' = num_columns c"
  using assms
  by (auto simp: init_column_def expected_at_def expected_column_def column_name_def
        to_dot_string_dot_joined
        col_summary_def Let_def split: option.splits if_splits)

lemma foreach_init_column:
  assumes "foreach init_column ixs c = Continue c'"
  shows "col_indexes c' = col_indexes c \<and> file_md c' = file_md c \<and> args c' = args c
         \<and> index_col_name c' = index_col_name c \<and> num_columns c' = num_columns c
         \<and> (\<exists>gs. cols c' = cols c @ gs
                \<and> map (\<lambda>g. Some (col_summary g)) gs = map (expected_at c) ixs
                \<and> (\<forall>g \<in> set gs. null_count g = 0))"
  using assms
proof (induction ixs arbitrary: c)
  case Nil
  then show ?case by simp
next
  case (Cons i ixs)
  from Cons.prems obtain c1 where c1: "init_column i c = Continue c1"
    and rest: "foreach init_column ixs c1 = Continue c'"
    by (cases "init_column i c") simp_all
  note one = init_column_Continue [OF c1]
  from one(1) obtain g where g: "cols c1 = cols c @ [g]" "expected_at c i = Some (col_summary g)"
    "null_count g = 0"
    by blast
  have same: "expected_at c1 = expected_at c"
    by (rule ext) (simp only: expected_at_def one(2) one(3))
  from Cons.IH [OF rest] obtain gs where gs: "cols c' = cols c1 @ gs"
    "map (\<lambda>g. Some (col_summary g)) gs = map (expected_at c1) ixs" "\<forall>g \<in> set gs. null_count g = 0"
    and keep: "col_indexes c' = col_indexes c1" "file_md c' = file_md c1" "args c' = args c1"
      "index_col_name c' = index_col_name c1" "num_columns c' = num_columns c1"
    by blast
  have "cols c' = cols c @ (g # gs)
    \<and> map (\<lambda>g. Some (col_summary g)) (g # gs) = map (expected_at c) (i # ixs)
    \<and> (\<forall>g \<in> set (g # gs). null_count g = 0)"
    using g gs same by simp
  then have "\<exists>gs. cols c' = cols c @ gs
    \<and> map (\<lambda>g. Some (col_summary g)) gs = map (expected_at c) (i # ixs)
    \<and> (\<forall>g \<in> set gs. null_count g = 0)"
    by (rule exI)
  then show ?case
    using keep one(2-6) by simp
qed

lemma init_columns_Continue:
  assumes "init_columns c = Continue c'"
    and "used (col_indexes c) \<le> length (storage (col_indexes c))"
    and "\<forall>i \<in> set (elements (col_indexes c)). i < length (columns (hd (row_groups (file_md c))))"
  shows "file_md c' = file_md c \<and> args c' = args c \<and> index_col_name c' = index_col_name c
         \<and> num_columns c' = used (col_indexes c)
         \<and> map (\<lambda>g. Some (col_summary g)) (cols c')
             = map (expected_column (file_md c))
                 (map (\<lambda>i. columns (hd (row_groups (file_md c))) ! i) (elements (col_indexes c)))
         \<and> (\<forall>g \<in> set (cols c'). null_count g = 0)"
proof -
  let ?n = "used (col_indexes c)"
  let ?c1 = "c\<lparr>num_columns := ?n, cols := [], col_indexes := clear (col_indexes c)\<rparr>"
  let ?cs = "columns (hd (row_groups (file_md c)))"
  have run: "foreach init_column [0..<?n] ?c1 = Continue c'"
    using assms(1) by (simp add: init_columns_def Let_def)
  from foreach_init_column [OF run] obtain gs where gs: "cols c' = gs"
    "map (\<lambda>g. Some (col_summary g)) gs = map (expected_at ?c1) [0..<?n]"
    "\<forall>g \<in> set gs. null_count g = 0"
    and keep: "file_md c' = file_md c" "args c' = args c" "index_col_name c' = index_col_name c"
      "num_columns c' = ?n"
    by auto
  have len: "length (elements (col_indexes c)) = ?n"
    using assms(2) by (simp add: elements_def)
  have at: "expected_at ?c1 i = expected_column (file_md c) (?cs ! (elements (col_indexes c) ! i))"
    if "i < ?n" for i
  proof -
    have "elements (col_indexes c) ! i < length ?cs"
      using assms(3) that len by (metis nth_mem)
    moreover have "elements (col_indexes c) ! i = storage (col_indexes c) ! i"
      using that by (simp add: elements_def)
    ultimately show ?thesis
      using that assms(2) by (simp add: expected_at_def unchecked_at_def clear_def read_at_def)
  qed
  have "map (expected_at ?c1) [0..<?n]
        = map (\<lambda>i. expected_column (file_md c) (?cs ! (elements (col_indexes c) ! i))) [0..<?n]"
    using at by simp
  also have "\<dots> = map (expected_column (file_md c)) (map (\<lambda>i. ?cs ! i) (elements (col_indexes c)))"
    using len by (simp add: list_eq_iff_nth_eq)
  finally show ?thesis
    using gs keep by simp
qed

lemma col_summary_ident: "col_summary g = (case col_ident g of (n, d, i, s) \<Rightarrow> (n, d, i))"
  by (simp add: col_summary_def col_ident_def)

lemma pipeline_keeps:
  assumes "build_chunks e c2 = Continue c3" "decode_page_headers e c3 = Continue c4"
    "alloc_column_data e c4 = Continue c5" "build_string_dictionaries c5 = Continue c6"
    "decode_page_data e c6 = Continue c7"
  shows "outside c7 = outside c2" and "col_idents c7 = col_idents c2"
proof -
  have "outside c3 = outside c2" "outside c4 = outside c3" "outside c5 = outside c4"
    "outside c6 = outside c5" "outside c7 = outside c6"
    using keepsD [OF build_chunks_fields(1), of e c2]
      keepsD [OF decode_page_headers_fields(1), of e c3]
      keepsD [OF alloc_column_data_fields(1), of e c4]
      keepsD [OF build_string_dictionaries_fields(1), of c5]
      keepsD [OF decode_page_data_fields(1), of e c6] assms
    by simp_all
  then show "outside c7 = outside c2" by simp
  have "col_idents c3 = col_idents c2" "col_idents c4 = col_idents c3" "col_idents c5 = col_idents c4"
    "col_idents c6 = col_idents c5" "col_idents c7 = col_idents c6"
    using keepsD [OF keeps_cols_idents [OF build_chunks_fields(2)], of e c2]
      keepsD [OF keeps_cols_idents [OF decode_page_headers_fields(2)], of e c3]
      keepsD [OF alloc_column_data_fields(5), of e c4]
      keepsD [OF keeps_cols_idents [OF build_string_dictionaries_fields(2)], of c5]
      keepsD [OF decode_page_data_fields(4), of e c6] assms
    by simp_all
  then show "col_idents c7 = col_idents c2" by simp
qed

subsection \<open>The materialised columns\<close>

text \<open>
  The selection in general. Let the read return \<open>GDF_SUCCESS\<close> for a file that was opened
  and parsed, with the allow-list \<open>u\<close>, and let \<open>name\<close> be what \<open>get_index_col\<close> makes of the
  index hint: the name in the hint, and the empty name when there is none. The selected
  columns are the columns of the first row group whose dot-joined schema path is in \<open>u\<close> or
  equals \<open>name\<close>, in file order. If there is none, the arguments are untouched. Otherwise
  the read hands over one output column per selected column, in that order, each with
  the name of its column and the type \<open>to_dtype\<close> gives its schema element, and the output
  count is their number.
\<close>

theorem materialized_columns:
  assumes "read_parquet e a = Return GDF_SUCCESS c"
    and "open_and_parse e a = Continue c0"
    and "row_groups (file_md c0) = rg # rgs"
    and "get_index_col (file_md c0) = Inr name"
    and "use_cols a = Some u"
  shows "(filter (\<lambda>col. column_name col \<in> set u \<or> column_name col = name) (columns rg) = []
            \<longrightarrow> args c = a)
       \<and> (filter (\<lambda>col. column_name col \<in> set u \<or> column_name col = name) (columns rg) \<noteq> []
            \<longrightarrow> (\<exists>outs. arg_data (args c) = Some outs
                  \<and> map (\<lambda>g. Some (col_name g, dtype g, dtype_info g)) outs
                      = map (expected_column (file_md c0))
                          (filter (\<lambda>col. column_name col \<in> set u \<or> column_name col = name)
                             (columns rg))
                  \<and> num_cols_out (args c)
                      = int (length (filter (\<lambda>col. column_name col \<in> set u \<or> column_name col = name)
                                       (columns rg)))))"
proof -
  let ?sel = "filter (\<lambda>col. column_name col \<in> set u \<or> column_name col = name) (columns rg)"
  have a0: "args c0 = a"
    using open_and_parse_args [of e a] assms(2) by simp
  have sel: "selected_columns (use_cols (args c0)) name (columns rg) = ?sel"
    using a0 assms(5) by (simp add: selected_columns_def)
  from assms(1) show ?thesis
  proof (cases rule: read_parquet_success)
    case (nothing_selected c0')
    then have "select_columns c0 = Return GDF_SUCCESS c"
      using assms(2) by simp
    from select_columns_Success [OF this assms(3,4)] show ?thesis
      using sel a0 by simp
  next
    case (columns_returned c0' c1 c2 c3 c4 c5 c6 c7)
    then have s: "select_columns c0 = Continue c1"
      using assms(2) by simp
    from s obtain rg' rgs' name' where
      "row_groups (file_md c0) = rg' # rgs'" "get_index_col (file_md c0) = Inr name'"
      and c1: "c1 = c0\<lparr>index_col_name := name',
                 col_indexes := chosen_indexes (use_cols (args c0)) name' (columns rg')\<rparr>"
      and pos: "0 < used (col_indexes c1)"
      by (rule select_columns_Continue)
    then have same: "rg' = rg" "name' = name"
      using assms(3,4) by simp_all
    let ?v = "chosen_indexes (use_cols (args c0)) name (columns rg)"
    note props = chosen_indexes_props [where allow_list = "use_cols (args c0)" and name = name
        and cs = "columns rg"]
    have v: "col_indexes c1 = ?v" and md1: "file_md c1 = file_md c0" and a1: "args c1 = a"
      using c1 same a0 by simp_all
    have hd: "hd (row_groups (file_md c1)) = rg"
      using md1 assms(3) by simp
    have init: "file_md c2 = file_md c1 \<and> args c2 = args c1 \<and> index_col_name c2 = index_col_name c1
         \<and> num_columns c2 = used (col_indexes c1)
         \<and> map (\<lambda>g. Some (col_summary g)) (cols c2)
             = map (expected_column (file_md c1))
                 (map (\<lambda>i. columns (hd (row_groups (file_md c1))) ! i) (elements (col_indexes c1)))
         \<and> (\<forall>g \<in> set (cols c2). null_count g = 0)"
      by (rule init_columns_Continue [OF columns_returned(3)]) (simp_all add: v hd props)
    have "map (\<lambda>g. Some (col_summary g)) (cols c2)
             = map (expected_column (file_md c1))
                 (map (\<lambda>i. columns (hd (row_groups (file_md c1))) ! i) (elements (col_indexes c1)))"
      using init by blast
    then have cols2: "map (\<lambda>g. Some (col_summary g)) (cols c2) = map (expected_column (file_md c0)) ?sel"
      using assms(3) unfolding v md1 by (simp only: list.sel props(2) sel)
    have n2: "num_columns c2 = length ?sel"
    proof -
      have "length (elements ?v) = used ?v"
        using props(1) by (simp add: elements_def)
      moreover have "length (elements ?v) = length ?sel"
        using props(2) sel by (metis length_map)
      ultimately show ?thesis
        using init v by simp
    qed
    have ne: "?sel \<noteq> []"
      using n2 pos init v by auto
    note kept = pipeline_keeps [OF columns_returned(4-8)]
    have a7: "args c7 = a" and n7: "num_columns c7 = length ?sel"
      using kept(1) init a1 n2 by (simp_all add: outside_def)
    have "map col_summary (cols c7) = map col_summary (cols c2)"
    proof -
      have "map col_summary (cols c7) = map (\<lambda>t. case t of (n, d, i, s) \<Rightarrow> (n, d, i)) (col_idents c7)"
        by (simp add: col_idents_def col_summary_ident)
      also have "\<dots> = map col_summary (cols c2)"
        unfolding kept(2) by (simp add: col_idents_def col_summary_ident)
      finally show ?thesis .
    qed
    then have "map Some (map col_summary (cols c7)) = map Some (map col_summary (cols c2))"
      by simp
    then have "map (\<lambda>g. Some (col_summary g)) (cols c7) = map (\<lambda>g. Some (col_summary g)) (cols c2)"
      by (simp add: comp_def)
    then have cols7: "map (\<lambda>g. Some (col_name g, dtype g, dtype_info g)) (cols c7)
        = map (expected_column (file_md c0)) ?sel"
      using cols2 by (simp add: col_summary_def)
    have "arg_data (args c) = Some (cols c7)" "num_cols_out (args c) = int (num_columns c7)"
      using columns_returned(9) by (auto simp: transfer_ownership_def Let_def split: if_splits)
    then show ?thesis
      using ne cols7 n7 by simp
  qed
qed

theorem materialized_columns_witness:
  "read_parquet (example_env True example_md 1 0 0 0) (example_args example_file (Some [''a'']))
     = Return GDF_SUCCESS
         (locals_of (read_parquet (example_env True example_md 1 0 0 0)
                       (example_args example_file (Some [''a'']))))
   \<and> get_index_col example_md = Inr ''idx''
   \<and> map column_name (columns (hd (row_groups example_md))) = [''a'', ''b'', ''idx'']
   \<and> (\<exists>outs. arg_data (args (locals_of (read_parquet (example_env True example_md 1 0 0 0)
                                          (example_args example_file (Some [''a''])))))
                = Some outs
          \<and> map (\<lambda>g. Some (col_name g, dtype g, dtype_info g)) outs
              = [Some (''a'', GDF_INT32, TIME_UNIT_NONE), Some (''idx'', GDF_INT64, TIME_UNIT_NONE)])
   \<and> num_cols_out (args (locals_of (read_parquet (example_env True example_md 1 0 0 0)
                                       (example_args example_file (Some [''a'']))))) = 2"
proof -
  let ?e = "example_env True example_md 1 0 0 0"
  let ?a = "example_args example_file (Some [''a''])"
  let ?P = "\<lambda>col. column_name col \<in> set [''a''] \<or> column_name col = ''idx''"
  have "returned (read_parquet ?e ?a) = Some GDF_SUCCESS"
    by code_simp
  then have r: "read_parquet ?e ?a = Return GDF_SUCCESS (locals_of (read_parquet ?e ?a))"
    by (cases "read_parquet ?e ?a") simp_all
  have "case open_and_parse ?e ?a of Continue c \<Rightarrow> True | _ \<Rightarrow> False"
    by code_simp
  then have p: "open_and_parse ?e ?a = Continue (locals_of (open_and_parse ?e ?a))"
    by (cases "open_and_parse ?e ?a") simp_all
  have md: "file_md (locals_of (open_and_parse ?e ?a)) = example_md"
    by code_simp
  have rg: "row_groups (file_md (locals_of (open_and_parse ?e ?a)))
              = hd (row_groups example_md) # tl (row_groups example_md)"
    by code_simp
  have idx: "get_index_col (file_md (locals_of (open_and_parse ?e ?a))) = Inr ''idx''"
    by code_simp
  have u: "use_cols ?a = Some [''a'']"
    by (simp add: example_args_def)
  have names: "map column_name (columns (hd (row_groups example_md))) = [''a'', ''b'', ''idx'']"
    by code_simp
  have sel: "filter ?P (columns (hd (row_groups example_md)))
               = [example_column ''a'' 0 GZIP 4, example_column ''idx'' 2 UNCOMPRESSED 0]"
    by code_simp
  have ex: "map (expected_column example_md)
              [example_column ''a'' 0 GZIP 4, example_column ''idx'' 2 UNCOMPRESSED 0]
            = [Some (''a'', GDF_INT32, TIME_UNIT_NONE), Some (''idx'', GDF_INT64, TIME_UNIT_NONE)]"
    by code_simp
  note m = materialized_columns [OF r p rg idx u, unfolded sel md ex]
  have i: "get_index_col example_md = Inr ''idx''"
    using idx unfolding md .
  have "\<exists>outs. arg_data (args (locals_of (read_parquet ?e ?a))) = Some outs
          \<and> map (\<lambda>g. Some (col_name g, dtype g, dtype_info g)) outs
              = [Some (''a'', GDF_INT32, TIME_UNIT_NONE), Some (''idx'', GDF_INT64, TIME_UNIT_NONE)]
          \<and> num_cols_out (args (locals_of (read_parquet ?e ?a))) = 2"
    using m by simp
  then obtain outs where o1: "arg_data (args (locals_of (read_parquet ?e ?a))) = Some outs
          \<and> map (\<lambda>g. Some (col_name g, dtype g, dtype_info g)) outs
              = [Some (''a'', GDF_INT32, TIME_UNIT_NONE), Some (''idx'', GDF_INT64, TIME_UNIT_NONE)]"
    and o2: "num_cols_out (args (locals_of (read_parquet ?e ?a))) = 2"
    by (elim exE conjE) (rule that, intro conjI)
  show ?thesis
    by (intro conjI exI [of _ outs])
       (rule r i names conjunct1 [OF o1] conjunct2 [OF o1] o2)+
qed

text \<open>
  C1. A file without index hint that has a column with the empty name. The file has the
  columns \<open>[]\<close> and \<open>a\<close> and no key \<^verbatim>\<open>pandas\<close>, so no index column is detected, and the
  allow-list is \<open>[a]\<close>. Line 436 appends the index name to the allow-list also when it
  is empty, and line 465 compares with it without asking whether there is one: the read
  returns \<open>GDF_SUCCESS\<close> with two columns, the unnamed one and \<open>a\<close>, and names column 0
  as the index column, where the columns in the allow-list plus a detected index column
  are the column \<open>a\<close> alone.
\<close>

theorem unnamed_column_taken_for_index:
  "get_index_col unnamed_column_md = Inr []
   \<and> map column_name (columns (hd (row_groups unnamed_column_md))) = [[], ''a'']
   \<and> use_cols (example_args example_file (Some [''a''])) = Some [''a'']
   \<and> returned (read_parquet (example_env True unnamed_column_md 1 0 0 0)
                 (example_args example_file (Some [''a''])))
       = Some GDF_SUCCESS
   \<and> map_option (map col_name)
        (arg_data (args (locals_of (read_parquet (example_env True unnamed_column_md 1 0 0 0)
                                      (example_args example_file (Some [''a'']))))))
       = Some [[], ''a'']
   \<and> num_cols_out (args (locals_of (read_parquet (example_env True unnamed_column_md 1 0 0 0)
                                       (example_args example_file (Some [''a''])))))
       = 2
   \<and> arg_index_col (args (locals_of (read_parquet (example_env True unnamed_column_md 1 0 0 0)
                                        (example_args example_file (Some [''a''])))))
       = Some 0"
  by code_simp

subsection \<open>The page array\<close>

lemma allocates_simps [simp]:
  "allocates rs (Alloc r n) = (r \<in> set rs)"
  "allocates rs Call_cp_read = False"
  "allocates rs Call_InitSchema = False"
  "allocates rs (Launch k) = False"
  "allocates rs (Printed s) = False"
  "allocates rs (Printed_status i st b) = False"
  by (simp_all add: allocates_def)

lemma allocations_emit [simp]:
  "allocations rs (emit ev c) = allocations rs c @ (if allocates rs ev then [ev] else [])"
  by (simp add: allocations_def emit_def)

lemma allocations_update [simp]:
  "allocations rs (c\<lparr>state := s\<rparr>) = allocations rs c"
  "allocations rs (c\<lparr>raw := r\<rparr>) = allocations rs c"
  "allocations rs (c\<lparr>file_md := md\<rparr>) = allocations rs c"
  "allocations rs (c\<lparr>index_col_name := nm\<rparr>) = allocations rs c"
  "allocations rs (c\<lparr>col_indexes := v\<rparr>) = allocations rs c"
  "allocations rs (c\<lparr>cols := gs\<rparr>) = allocations rs c"
  "allocations rs (c\<lparr>num_columns := n\<rparr>) = allocations rs c"
  "allocations rs (c\<lparr>l_num_rows := i\<rparr>) = allocations rs c"
  "allocations rs (c\<lparr>index_col := i\<rparr>) = allocations rs c"
  "allocations rs (c\<lparr>chunk_map := m\<rparr>) = allocations rs c"
  "allocations rs (c\<lparr>args := a\<rparr>) = allocations rs c"
  "allocations rs (c\<lparr>trace := t\<rparr>) = filter (allocates rs) t"
  by (simp_all add: allocations_def)

lemma state_emit [simp]: "state (emit ev c) = state c"
  by (simp add: emit_def)

lemma check_file_quiet:
  "keeps (allocations rs) (check_file e)" "keeps pages_counted (check_file e)"
  by (simp_all add: keeps_def pages_counted_def check_file_def split: option.splits)

lemma read_metadata_quiet:
  "keeps (allocations rs) (read_metadata e)" "keeps pages_counted (read_metadata e)"
  by (simp_all add: keeps_def pages_counted_def read_metadata_def print_metadata_def Let_def)

lemma select_columns_quiet:
  "keeps (allocations rs) select_columns" "keeps pages_counted select_columns"
  by (simp_all add: keeps_def pages_counted_def select_columns_def Let_def split: sum.splits list.splits)

lemma init_column_quiet:
  "keeps (allocations rs) (init_column i)" "keeps pages_counted (init_column i)"
  by (simp_all add: keeps_def pages_counted_def init_column_def Let_def split: option.splits)

lemma init_columns_quiet:
  "keeps (allocations rs) init_columns" "keeps pages_counted init_columns"
  unfolding init_columns_def Let_def
  by (rule keepsI, simp add: pages_counted_def keepsD [OF keeps_foreach [OF init_column_quiet(1)]]
        keepsD [OF keeps_foreach [OF init_column_quiet(2)], unfolded pages_counted_def])+

lemma alloc_chunks_quiet:
  "Chunk_desc_dev \<notin> set rs \<Longrightarrow> Chunk_desc_host \<notin> set rs
     \<Longrightarrow> keeps (allocations rs) (alloc_chunks e n m)"
  "keeps pages_counted (alloc_chunks e n m)"
  by (simp_all add: keeps_def pages_counted_def alloc_chunks_def GDF_TRY_def Let_def)

lemma add_chunk_quiet:
  "Compressed_data \<notin> set rs \<Longrightarrow> keeps (allocations rs) (add_chunk e rowgroup col k column)"
  "keeps pages_counted (add_chunk e rowgroup col k column)"
  by (simp_all add: keeps_def pages_counted_def add_chunk_def Let_def split: option.splits)

lemma match_chunk_quiet:
  "Compressed_data \<notin> set rs \<Longrightarrow> keeps (allocations rs) (match_chunk e rowgroup col)"
  "keeps pages_counted (match_chunk e rowgroup col)"
  using add_chunk_quiet [where e = e and rowgroup = rowgroup and col = col]
  by (simp_all add: keeps_def match_chunk_def Let_def split: option.splits prod.splits)

lemma scan_rowgroup_quiet:
  "Compressed_data \<notin> set rs \<Longrightarrow> keeps (allocations rs) (scan_rowgroup e rowgroup)"
  "keeps pages_counted (scan_rowgroup e rowgroup)"
  unfolding scan_rowgroup_def
  by (rule keeps_and_then, rule keeps_foreach, rule match_chunk_quiet, assumption?,
      simp add: keeps_def pages_counted_def)+

lemma build_chunks_quiet:
  "Chunk_desc_dev \<notin> set rs \<Longrightarrow> Chunk_desc_host \<notin> set rs \<Longrightarrow> Compressed_data \<notin> set rs
     \<Longrightarrow> keeps (allocations rs) (build_chunks e)"
  "keeps pages_counted (build_chunks e)"
  unfolding build_chunks_def
  by (rule keepsI,
      simp add: and_then_keeps [OF keeps_foreach] scan_rowgroup_quiet keepsD [OF alloc_chunks_quiet(1)]
                keepsD [OF alloc_chunks_quiet(2)])+

lemma build_descriptors_quiet:
  assumes "Chunk_desc_dev \<notin> set rs" "Chunk_desc_host \<notin> set rs" "Compressed_data \<notin> set rs"
  shows "allocations rs (locals_of (build_descriptors e a)) = []"
    and "pages_counted (locals_of (build_descriptors e a)) = 0"
proof -
  have k: "keeps p (check_file e) \<Longrightarrow> keeps p (read_metadata e) \<Longrightarrow> keeps p select_columns
        \<Longrightarrow> keeps p init_columns \<Longrightarrow> keeps p (build_chunks e)
        \<Longrightarrow> p (locals_of (build_descriptors e a)) = p (init_locals a)" for p :: "locals \<Rightarrow> 'a"
    by (simp add: build_descriptors_def open_and_parse_def and_then_keeps keepsD)
  show "allocations rs (locals_of (build_descriptors e a)) = []"
    using k [OF check_file_quiet(1) read_metadata_quiet(1) select_columns_quiet(1)
                init_columns_quiet(1) build_chunks_quiet(1) [OF assms]]
    by (simp add: init_locals_def allocations_def)
  show "pages_counted (locals_of (build_descriptors e a)) = 0"
    using k [OF check_file_quiet(2) read_metadata_quiet(2) select_columns_quiet(2)
                init_columns_quiet(2) build_chunks_quiet(2)]
    by (simp add: init_locals_def pages_counted_def)
qed

lemma dispatch_quiet: "keeps (allocations rs) (dispatch_DecodePageHeaders e site)"
  by (simp add: keeps_def dispatch_DecodePageHeaders_def GDF_TRY_def Let_def)

lemma count_pages_quiet: "keeps (allocations rs) (count_pages e)"
  unfolding count_pages_def
  by (rule keeps_and_then, rule dispatch_quiet, simp add: keeps_def count_total_pages_def)


lemma store_page_info_quiet: "keeps (allocations rs) (store_page_info e)"
  using dispatch_quiet [of rs e Try_store_pages]
  by (simp add: keeps_def store_page_info_def attach_page_info_def)

lemma fill_inflate_pages_events:
  "fill_inflate_pages is s = Some s1 \<Longrightarrow> il_events s1 = il_events s"
  by (induction "is" arbitrary: s)
     (auto simp: fill_inflate_page_def split: option.splits)

lemma fill_inflate_chunks_events:
  "fill_inflate_chunks cdc chunks page_cnt s = Some s1 \<Longrightarrow> il_events s1 = il_events s"
  by (induction cdc chunks page_cnt s rule: fill_inflate_chunks.induct)
     (auto simp: fill_inflate_pages_events split: if_splits option.splits)

lemma inflate_codec_events:
  "inflate_codec e chunks entry s = Some s1
     \<Longrightarrow> filter (allocates rs) (il_events s1) = filter (allocates rs) (il_events s)"
  by (cases "fst entry")
     (auto simp: inflate_codec_def Let_def fill_inflate_chunks_events split: if_splits option.splits)

lemma inflate_codecs_events:
  "inflate_codecs e chunks entries s = Some s1
     \<Longrightarrow> filter (allocates rs) (il_events s1) = filter (allocates rs) (il_events s)"
  by (induction entries arbitrary: s)
     (auto simp: inflate_codec_events split: option.splits)

lemma status_lines_quiet: "filter (allocates rs) (status_lines outs) = []"
  by (auto simp: status_lines_def filter_empty_conv split: if_splits)

lemma inflate_pages_quiet:
  assumes "Inflate_in_host \<notin> set rs" "Inflate_in_dev \<notin> set rs" "Inflate_out_host \<notin> set rs"
    "Inflate_out_dev \<notin> set rs" "Decompressed_pages \<notin> set rs"
  shows "keeps (allocations rs) (inflate_pages e chunks cnts)"
proof (rule keepsI)
  fix c
  show "allocations rs (locals_of (inflate_pages e chunks cnts c)) = allocations rs c"
    using assms
    by (auto simp: inflate_pages_def Let_def status_lines_quiet allocations_def emit_def
             dest: inflate_codecs_events [where rs = rs] split: option.splits)
qed

lemma decompress_pages_quiet:
  assumes "Inflate_in_host \<notin> set rs" "Inflate_in_dev \<notin> set rs" "Inflate_out_host \<notin> set rs"
    "Inflate_out_dev \<notin> set rs" "Decompressed_pages \<notin> set rs"
  shows "keeps (allocations rs) (decompress_pages e)"
  using inflate_pages_quiet [OF assms, of e]
  by (simp add: keeps_def decompress_pages_def Let_def split: option.splits prod.splits)

lemma alloc_column_data_quiet:
  assumes "Column_data \<notin> set rs" "Column_valid \<notin> set rs"
  shows "keeps (allocations rs) (alloc_column_data e)"
proof -
  have "filter (allocates rs) (concat (map (\<lambda>g. snd (alloc_one_column e g)) gs)) = []" for gs
    using assms by (induction gs) (simp_all add: alloc_one_column_def Let_def)
  then show ?thesis
    by (simp add: keeps_def alloc_column_data_def GDF_TRY_def Let_def allocations_def comp_def)
qed

lemma build_string_dictionaries_quiet:
  assumes "Str_dict_index \<notin> set rs"
  shows "keeps (allocations rs) build_string_dictionaries"
  using assms
  by (simp add: keeps_def build_string_dictionaries_def alloc_dictionaries_def Let_def
           split: option.splits)

lemma decode_page_data_quiet: "keeps (allocations rs) (decode_page_data e)"
  by (simp add: keeps_def decode_page_data_def Let_def)

lemma transfer_ownership_quiet: "keeps (allocations rs) transfer_ownership"
  by (simp add: keeps_def transfer_ownership_def Let_def)

lemma fold_add_sum: "fold (\<lambda>d t. t + f d) ds (t0 :: nat) = t0 + sum_list (map f ds)"
  by (induction ds arbitrary: t0) simp_all

lemma count_pages_Continue:
  assumes "count_pages e c0 = Continue c1"
  shows "total_pages (state c1)
           = total_pages (state c0) + (\<Sum>d\<leftarrow>chunk_desc (state c1). page_count d)"
proof -
  obtain cd where d: "dispatch_DecodePageHeaders e Try_count_pages c0 = Continue cd"
    and c1: "c1 = count_total_pages cd"
    using assms by (cases "dispatch_DecodePageHeaders e Try_count_pages c0") (auto simp: count_pages_def)
  have "total_pages (state cd) = total_pages (state c0)"
    using d by (auto simp: dispatch_DecodePageHeaders_def GDF_TRY_def Let_def split: if_splits)
  then show ?thesis
    by (simp add: c1 count_total_pages_def fold_add_sum page_count_def)
qed

lemma alloc_pages_Continue:
  assumes "alloc_pages e c1 = Continue c2"
  shows "length (page_index_dev (state c2)) = total_pages (state c1)"
    "length (page_index (state c2)) = total_pages (state c1)"
    "chunk_desc (state c2) = chunk_desc (state c1)"
    "total_pages (state c2) = total_pages (state c1)"
    "trace c2 = trace c1 @ [Alloc Page_index_dev (total_pages (state c1)),
                            Alloc Page_index_host (total_pages (state c1))]"
  using assms
  by (auto simp: alloc_pages_def GDF_TRY_def Let_def emit_def split: if_splits)

lemma alloc_pages_allocations:
  "allocations [Page_index_dev, Page_index_host] (locals_of (alloc_pages e c1))
     = allocations [Page_index_dev, Page_index_host] c1
       @ [Alloc Page_index_dev (total_pages (state c1)), Alloc Page_index_host (total_pages (state c1))]"
  by (simp add: alloc_pages_def GDF_TRY_def Let_def)

lemma assign_page_info_length [simp]: "length (assign_page_info n ds) = length ds"
  by (induction ds arbitrary: n) simp_all

lemma assign_page_info_nth:
  "i < length ds \<Longrightarrow>
     page_info (assign_page_info n ds ! i) = Some (n + sub_range_start ds i)
     \<and> max_num_pages (assign_page_info n ds ! i) = page_count (ds ! i)"
proof (induction ds arbitrary: n i)
  case Nil
  then show ?case by simp
next
  case (Cons d ds)
  show ?case
  proof (cases i)
    case 0
    then show ?thesis by (simp add: sub_range_start_def page_count_def)
  next
    case (Suc j)
    with Cons.prems have "j < length ds" by simp
    from Cons.IH [OF this, of "n + (num_data_pages d + num_dict_pages d)"] Suc
    show ?thesis by (simp add: sub_range_start_def page_count_def)
  qed
qed

lemma after_headers_allocations:
  assumes "keeps (allocations rs) (alloc_column_data e)"
    and "keeps (allocations rs) build_string_dictionaries"
  shows "allocations rs (locals_of (read_parquet e a))
           = allocations rs (locals_of (and_then (build_descriptors e a) (decode_page_headers e)))"
  unfolding read_parquet_def
  by (simp add: and_then_keeps [OF transfer_ownership_quiet] and_then_keeps [OF decode_page_data_quiet]
        and_then_keeps [OF assms(1)] and_then_keeps [OF assms(2)])

text \<open>
  C6, as the code has it. Let the read get past the first header pass, \<open>c1\<close> being the
  locals after the counting loop. The total page count is the sum of
  \<open>num_data_pages + num_dict_pages\<close> over the chunk descriptors. The page array is
  allocated under the guard \<^verbatim>\<open>total_pages > 0\<close>: with no pages the header decoding ends
  there; with pages, once \<open>alloc_pages\<close> went through, the device and the host array both
  have that length, and the descriptors that the second pass pushes to the device carry,
  chunk by chunk, the start of the chunk's sub-range (the pages of the chunks before it)
  in \<^verbatim>\<open>page_info\<close> and its page count in \<^verbatim>\<open>max_num_pages\<close>. A read that returns
  \<open>GDF_SUCCESS\<close> has allocated the pair of arrays once, with that length, when there are
  pages, and not at all when there are none.
\<close>

theorem page_info_array:
  assumes "build_descriptors e a = Continue c0" and "count_pages e c0 = Continue c1"
  shows "total_pages (state c1) = (\<Sum>d\<leftarrow>chunk_desc (state c1). page_count d)
    \<and> (total_pages (state c1) = 0 \<longrightarrow> decode_page_headers e c0 = Continue c1)
    \<and> (\<forall>c2. 0 < total_pages (state c1) \<and> alloc_pages e c1 = Continue c2 \<longrightarrow>
           length (page_index_dev (state c2)) = total_pages (state c1)
         \<and> length (page_index (state c2)) = total_pages (state c1)
         \<and> decode_page_headers e c0
             = and_then (dispatch_DecodePageHeaders e Try_store_pages (attach_page_info c2))
                 (decompress_pages e)
         \<and> length (chunk_desc (state (attach_page_info c2))) = length (chunk_desc (state c1))
         \<and> (\<forall>i<length (chunk_desc (state c1)).
               page_info (chunk_desc (state (attach_page_info c2)) ! i)
                 = Some (sub_range_start (chunk_desc (state c1)) i)
             \<and> max_num_pages (chunk_desc (state (attach_page_info c2)) ! i)
                 = page_count (chunk_desc (state c1) ! i)))
    \<and> (\<forall>c. read_parquet e a = Return GDF_SUCCESS c \<longrightarrow>
           allocations [Page_index_dev, Page_index_host] c
             = (if 0 < total_pages (state c1)
                then [Alloc Page_index_dev (total_pages (state c1)),
                      Alloc Page_index_host (total_pages (state c1))]
                else []))"
proof -
  let ?rs = "[Page_index_dev, Page_index_host]"
  let ?n = "total_pages (state c1)"
  have zero: "total_pages (state c0) = 0"
    using build_descriptors_quiet(2) [of "[]" e a] assms(1) by (simp add: pages_counted_def)
  have none0: "allocations ?rs c0 = []"
    using build_descriptors_quiet(1) [of ?rs e a] assms(1) by simp
  have none1: "allocations ?rs c1 = []"
    using keepsD [OF count_pages_quiet, of ?rs e c0] assms(2) none0 by simp
  have total: "?n = (\<Sum>d\<leftarrow>chunk_desc (state c1). page_count d)"
    using count_pages_Continue [OF assms(2)] zero by simp
  have headers: "decode_page_headers e c0
      = (if 0 < ?n then and_then (and_then (alloc_pages e c1) (store_page_info e)) (decompress_pages e)
         else Continue c1)"
    by (simp add: decode_page_headers_def assms(2))
  have empty: "?n = 0 \<longrightarrow> decode_page_headers e c0 = Continue c1"
    by (simp add: headers)
  have pass2: "length (page_index_dev (state c2)) = ?n
         \<and> length (page_index (state c2)) = ?n
         \<and> decode_page_headers e c0
             = and_then (dispatch_DecodePageHeaders e Try_store_pages (attach_page_info c2))
                 (decompress_pages e)
         \<and> length (chunk_desc (state (attach_page_info c2))) = length (chunk_desc (state c1))
         \<and> (\<forall>i<length (chunk_desc (state c1)).
               page_info (chunk_desc (state (attach_page_info c2)) ! i)
                 = Some (sub_range_start (chunk_desc (state c1)) i)
             \<and> max_num_pages (chunk_desc (state (attach_page_info c2)) ! i)
                 = page_count (chunk_desc (state c1) ! i))"
    if "0 < ?n \<and> alloc_pages e c1 = Continue c2" for c2
  proof -
    from that have pos: "0 < ?n" and al: "alloc_pages e c1 = Continue c2"
      by simp_all
    note facts = alloc_pages_Continue [OF al]
    have descs: "chunk_desc (state (attach_page_info c2)) = assign_page_info 0 (chunk_desc (state c1))"
      by (simp add: attach_page_info_def facts(3))
    show ?thesis
      using pos
      by (simp add: facts(1,2) headers al store_page_info_def descs assign_page_info_nth)
  qed
  have whole: "allocations ?rs c
             = (if 0 < ?n then [Alloc Page_index_dev ?n, Alloc Page_index_host ?n] else [])"
    if "read_parquet e a = Return GDF_SUCCESS c" for c
  proof -
    have "allocations ?rs c = allocations ?rs (locals_of (read_parquet e a))"
      by (simp add: that)
    also have "\<dots> = allocations ?rs (locals_of (decode_page_headers e c0))"
      by (subst after_headers_allocations)
         (simp_all add: alloc_column_data_quiet build_string_dictionaries_quiet assms(1))
    also have "\<dots> = (if 0 < ?n then allocations ?rs (locals_of (alloc_pages e c1))
                      else allocations ?rs c1)"
      by (simp add: headers and_then_keeps [OF decompress_pages_quiet]
            and_then_keeps [OF store_page_info_quiet])
    finally show ?thesis
      by (simp add: alloc_pages_allocations none1)
  qed
  from total empty pass2 whole show ?thesis
    by blast
qed

lemma continues_locals_of: "continues f \<Longrightarrow> f = Continue (locals_of f)"
  by (cases f) (simp_all add: continues_def)

theorem no_pages_no_page_info_array:
  "returned (read_parquet (example_env True example_md 0 0 0 0)
               (example_args example_file (Some [''idx''])))
     = Some GDF_SUCCESS
   \<and> total_pages (state (locals_of (read_parquet (example_env True example_md 0 0 0 0)
                                        (example_args example_file (Some [''idx''])))))
       = 0
   \<and> allocations [Page_index_dev, Page_index_host]
        (locals_of (read_parquet (example_env True example_md 0 0 0 0)
                      (example_args example_file (Some [''idx'']))))
       = []
   \<and> map page_info
        (chunk_desc (state (locals_of (read_parquet (example_env True example_md 0 0 0 0)
                                         (example_args example_file (Some [''idx'']))))))
       = [None]"
  by code_simp

theorem page_info_array_witness:
  "build_descriptors (example_env True example_md 1 0 0 0) (example_args example_file None)
     = Continue (locals_of (build_descriptors (example_env True example_md 1 0 0 0)
                              (example_args example_file None)))
   \<and> count_pages (example_env True example_md 1 0 0 0)
         (locals_of (build_descriptors (example_env True example_md 1 0 0 0)
                       (example_args example_file None)))
       = Continue (locals_of (count_pages (example_env True example_md 1 0 0 0)
           (locals_of (build_descriptors (example_env True example_md 1 0 0 0)
                         (example_args example_file None)))))
   \<and> total_pages (state (locals_of (count_pages (example_env True example_md 1 0 0 0)
           (locals_of (build_descriptors (example_env True example_md 1 0 0 0)
                         (example_args example_file None)))))) = 3
   \<and> read_parquet (example_env True example_md 1 0 0 0) (example_args example_file None)
       = Return GDF_SUCCESS
           (locals_of (read_parquet (example_env True example_md 1 0 0 0)
                         (example_args example_file None)))
   \<and> allocations [Page_index_dev, Page_index_host]
        (locals_of (read_parquet (example_env True example_md 1 0 0 0)
                      (example_args example_file None)))
       = [Alloc Page_index_dev 3, Alloc Page_index_host 3]
   \<and> page_info (chunk_desc (state (attach_page_info
        (locals_of (alloc_pages (example_env True example_md 1 0 0 0)
           (locals_of (count_pages (example_env True example_md 1 0 0 0)
              (locals_of (build_descriptors (example_env True example_md 1 0 0 0)
                            (example_args example_file None))))))))) ! 2)
       = Some 2"
proof -
  let ?e = "example_env True example_md 1 0 0 0"
  let ?a = "example_args example_file None"
  let ?built = "locals_of (build_descriptors ?e ?a)"
  let ?counted = "locals_of (count_pages ?e ?built)"
  let ?allocated = "locals_of (alloc_pages ?e ?counted)"
  let ?final = "locals_of (read_parquet ?e ?a)"
  have "continues (build_descriptors ?e ?a)"
    by code_simp
  then have bd: "build_descriptors ?e ?a = Continue ?built"
    by (rule continues_locals_of)
  have "continues (count_pages ?e ?built)"
    by code_simp
  then have cp: "count_pages ?e ?built = Continue ?counted"
    by (rule continues_locals_of)
  have "continues (alloc_pages ?e ?counted)"
    by code_simp
  then have al: "alloc_pages ?e ?counted = Continue ?allocated"
    by (rule continues_locals_of)
  have "returned (read_parquet ?e ?a) = Some GDF_SUCCESS"
    by code_simp
  then have r: "read_parquet ?e ?a = Return GDF_SUCCESS ?final"
    by (cases "read_parquet ?e ?a") simp_all
  have n: "total_pages (state ?counted) = 3"
    by code_simp
  have len: "length (chunk_desc (state ?counted)) = 3"
    by code_simp
  have start: "sub_range_start (chunk_desc (state ?counted)) 2 = 2"
    by code_simp
  note inst = page_info_array [OF bd cp]
  have once: "allocations [Page_index_dev, Page_index_host] ?final
                = [Alloc Page_index_dev 3, Alloc Page_index_host 3]"
    using inst r n by simp
  have ptr: "page_info (chunk_desc (state (attach_page_info ?allocated)) ! 2) = Some 2"
    using inst al n len start by simp
  show ?thesis
    by (intro conjI) (rule bd cp n r once ptr)+
qed

subsection \<open>The null counts\<close>

lemma read_at_None: "read_at xs i = None \<longleftrightarrow> length xs \<le> i"
  by (auto simp: read_at_def)

lemma to_int32_add_left: "to_int32 (to_int32 a + b) = to_int32 (a + b)"
  by (simp add: to_int32_def)

lemma to_int32_add_right: "to_int32 (a + to_int32 b) = to_int32 (a + b)"
  by (simp add: to_int32_def)

lemma to_int32_idem: "to_int32 (to_int32 a) = to_int32 a"
  by (simp add: to_int32_def)

lemma add_nulls_length: "length (add_nulls n cmap p gs) = length gs"
  by (simp add: add_nulls_def Let_def split: option.splits prod.splits)

lemma add_nulls_nth:
  assumes "k < length gs"
  shows "null_count (add_nulls n cmap p gs ! k)
           = (if owner_in n cmap p = Some k
              then to_int32 (null_count (gs ! k) + (num_rows p - valid_count p))
              else null_count (gs ! k))"
  using assms
  by (auto simp: add_nulls_def owner_in_def Let_def read_at_Some read_at_None nth_list_update
        to_int32_add_right split: option.splits prod.splits)

lemma fold_add_nulls_length: "length (fold (add_nulls n cmap) ps gs) = length gs"
  by (induction ps arbitrary: gs) (simp_all add: add_nulls_length)

lemma fold_add_nulls_nth:
  assumes "k < length gs" and "to_int32 (null_count (gs ! k)) = null_count (gs ! k)"
  shows "null_count (fold (add_nulls n cmap) ps gs ! k)
           = to_int32 (null_count (gs ! k)
               + (\<Sum>p\<leftarrow>filter (\<lambda>p. owner_in n cmap p = Some k) ps. num_rows p - valid_count p))"
  using assms
proof (induction ps arbitrary: gs)
  case Nil
  then show ?case by simp
next
  case (Cons p ps)
  have len: "k < length (add_nulls n cmap p gs)"
    using Cons.prems(1) by (simp add: add_nulls_length)
  note step = add_nulls_nth [OF Cons.prems(1), of n cmap p]
  have range: "to_int32 (null_count (add_nulls n cmap p gs ! k)) = null_count (add_nulls n cmap p gs ! k)"
    using step Cons.prems(2) by (simp add: to_int32_idem)
  from Cons.IH [OF len range] show ?case
    using step by (simp add: to_int32_add_left add.assoc)
qed

lemma pipeline_null_counts:
  assumes "build_chunks e c2 = Continue c3" "decode_page_headers e c3 = Continue c4"
    "alloc_column_data e c4 = Continue c5" "build_string_dictionaries c5 = Continue c6"
  shows "null_counts c6 = null_counts c2"
proof -
  have "null_counts c3 = null_counts c2" "null_counts c4 = null_counts c3"
    "null_counts c5 = null_counts c4" "null_counts c6 = null_counts c5"
    using keepsD [OF keeps_cols_nulls [OF build_chunks_fields(2)], of e c2]
      keepsD [OF keeps_cols_nulls [OF decode_page_headers_fields(2)], of e c3]
      keepsD [OF alloc_column_data_fields(6), of e c4]
      keepsD [OF keeps_cols_nulls [OF build_string_dictionaries_fields(2)], of c5] assms
    by simp_all
  then show ?thesis by simp
qed

lemma init_columns_null_counts:
  assumes "init_columns c1 = Continue c2"
  shows "\<forall>g \<in> set (cols c2). null_count g = 0"
proof -
  have "foreach init_column [0..<used (col_indexes c1)]
          (c1\<lparr>num_columns := used (col_indexes c1), cols := [], col_indexes := clear (col_indexes c1)\<rparr>)
        = Continue c2"
    using assms by (simp add: init_columns_def Let_def)
  from foreach_init_column [OF this] show ?thesis
    by auto
qed

lemma decode_page_data_Continue:
  assumes "decode_page_data e c = Continue c'"
  shows "chunk_map c' = chunk_map c" "chunk_desc (state c') = chunk_desc (state c)"
    "total_pages (state c') = total_pages (state c)"
    "cols c' = fold (add_nulls (length (chunk_desc (state c'))) (chunk_map c'))
                 (take (nat (to_int32 (int (total_pages (state c'))))) (page_index (state c')))
                 (cols c)"
  using assms
  by (auto simp: decode_page_data_def Let_def emit_def to_int32_def split: if_splits)

lemma transfer_ownership_Return:
  assumes "transfer_ownership c7 = Return r c"
  shows "cols c = cols c7" "state c = state c7" "chunk_map c = chunk_map c7"
    "arg_data (args c) = Some (cols c7)"
  using assms by (auto simp: transfer_ownership_def Let_def)

text \<open>
  The accumulation of the null counts. Let the read return \<open>GDF_SUCCESS\<close>, and let \<open>k\<close> be
  one of its output columns. The columns handed to the caller are the final \<open>cols\<close>. The
  null count of column \<open>k\<close> is the sum, in 32 bits, of \<open>num_rows - valid_count\<close> over the
  pages of the column: the page records pulled back after the decode kernel that have a
  non-zero row count and whose \<^verbatim>\<open>chunk_idx\<close> is a chunk owned by column \<open>k\<close>.
\<close>

theorem accumulated_null_count:
  assumes "read_parquet e a = Return GDF_SUCCESS c" and "k < length (cols c)"
  shows "arg_data (args c) = Some (cols c)
       \<and> null_count (cols c ! k)
           = to_int32 (\<Sum>p\<leftarrow>column_pages c k. num_rows p - valid_count p)"
proof -
  from assms(1) show ?thesis
  proof (cases rule: read_parquet_success)
    case (nothing_selected c0)
    have "cols (locals_of (open_and_parse e a)) = []"
      unfolding open_and_parse_def
      by (simp add: and_then_keeps [of cols] keeps_def check_file_def read_metadata_def
            print_metadata_def emit_def Let_def init_locals_def split: option.splits)
    then have "cols c0 = []"
      using nothing_selected(1) by simp
    moreover have "cols (locals_of (select_columns c0)) = cols c0"
      by (simp add: select_columns_def emit_def Let_def split: sum.splits list.splits)
    ultimately have "cols c = []"
      using nothing_selected(2) by simp
    then show ?thesis
      using assms(2) by simp
  next
    case (columns_returned c0 c1 c2 c3 c4 c5 c6 c7)
    have zero: "\<forall>g \<in> set (cols c6). null_count g = 0"
    proof -
      have "map null_count (cols c6) = map null_count (cols c2)"
        using pipeline_null_counts [OF columns_returned(4-7)] by (simp add: null_counts_def)
      moreover have "\<forall>x \<in> set (map null_count (cols c2)). x = 0"
        using init_columns_null_counts [OF columns_returned(3)] by simp
      ultimately have "\<forall>x \<in> set (map null_count (cols c6)). x = 0"
        by simp
      then show ?thesis by simp
    qed
    note d = decode_page_data_Continue [OF columns_returned(8)]
    note t = transfer_ownership_Return [OF columns_returned(9)]
    let ?n = "length (chunk_desc (state c7))"
    let ?ps = "take (nat (to_int32 (int (total_pages (state c7))))) (page_index (state c7))"
    have len: "length (cols c7) = length (cols c6)"
      using d(4) by (simp add: fold_add_nulls_length)
    then have k6: "k < length (cols c6)"
      using assms(2) t(1) by simp
    have own: "owner_in ?n (chunk_map c7) = page_owner c"
      by (simp add: owner_in_def page_owner_def fun_eq_iff t)
    have start: "null_count (cols c6 ! k) = 0"
      using zero k6 by simp
    then have range: "to_int32 (null_count (cols c6 ! k)) = null_count (cols c6 ! k)"
      by (simp add: to_int32_def)
    have "null_count (cols c7 ! k)
            = to_int32 (null_count (cols c6 ! k)
                + (\<Sum>p\<leftarrow>filter (\<lambda>p. owner_in ?n (chunk_map c7) p = Some k) ?ps.
                     num_rows p - valid_count p))"
      unfolding d(4) by (rule fold_add_nulls_nth [OF k6 range])
    then have "null_count (cols c ! k)
                 = to_int32 (\<Sum>p\<leftarrow>column_pages c k. num_rows p - valid_count p)"
      by (simp add: start column_pages_def own t)
    then show ?thesis
      using t by simp
  qed
qed

theorem accumulated_null_count_witness:
  "read_parquet (example_env True uncompressed_md 1 0 0 0) (example_args example_file None)
     = Return GDF_SUCCESS
         (locals_of (read_parquet (example_env True uncompressed_md 1 0 0 0)
                       (example_args example_file None)))
   \<and> 0 < length (cols (locals_of (read_parquet (example_env True uncompressed_md 1 0 0 0)
                                      (example_args example_file None))))
   \<and> map (\<lambda>p. (num_rows p, valid_count p))
        (column_pages (locals_of (read_parquet (example_env True uncompressed_md 1 0 0 0)
                                    (example_args example_file None))) 0)
       = [(10, 7)]
   \<and> null_count (cols (locals_of (read_parquet (example_env True uncompressed_md 1 0 0 0)
                                     (example_args example_file None))) ! 0) = 3"
proof -
  let ?e = "example_env True uncompressed_md 1 0 0 0"
  let ?a = "example_args example_file None"
  let ?final = "locals_of (read_parquet ?e ?a)"
  have "returned (read_parquet ?e ?a) = Some GDF_SUCCESS"
    by code_simp
  then have r: "read_parquet ?e ?a = Return GDF_SUCCESS ?final"
    by (cases "read_parquet ?e ?a") simp_all
  have k: "0 < length (cols ?final)"
    by code_simp
  have pages: "map (\<lambda>p. (num_rows p, valid_count p)) (column_pages ?final 0) = [(10, 7)]"
    by code_simp
  have sum: "to_int32 (\<Sum>p\<leftarrow>column_pages ?final 0. num_rows p - valid_count p) = 3"
    by code_simp
  have "null_count (cols ?final ! 0) = 3"
    using accumulated_null_count [OF r k] sum by simp
  with r k pages show ?thesis
    by (intro conjI)
qed

text \<open>
  C7. A read with compressed pages. The example file has 10 rows in three columns, the
  first one compressed with \<open>GZIP\<close>, one page per chunk. The second header pass decodes the page records into the device array: chunk 0, 1 and 2, 10 rows
  each. The host array is never filled from it; after the decompression, line 681 copies
  the host array, as its allocation left it, over the device array. The decode kernel
  writes a valid count of 7 into each record, line 729 pulls the records back, and the
  loop of lines 731-741 finds three pages of chunk 0: the read returns \<open>GDF_SUCCESS\<close> with
  the null counts 9, 0 and 0, where 10 rows with 7 valid values call for 3, 3 and 3. The
  same file without compression takes the path that leaves the device array alone, and
  comes out with 3, 3 and 3.
\<close>

theorem null_counts_of_overwritten_page_records:
  "returned (read_parquet (valid_counts_only (example_env True example_md 1 0 0 0))
               (example_args example_file None))
     = Some GDF_SUCCESS
   \<and> map col_size
        (cols (locals_of (read_parquet (valid_counts_only (example_env True example_md 1 0 0 0))
                            (example_args example_file None))))
       = [10, 10, 10]
   \<and> map (\<lambda>p. (chunk_idx p, num_rows p))
        (page_index_dev (state (locals_of
           (header_passes (valid_counts_only (example_env True example_md 1 0 0 0))
              (example_args example_file None)))))
       = [(0, 10), (1, 10), (2, 10)]
   \<and> map (\<lambda>p. (chunk_idx p, num_rows p, valid_count p))
        (page_index (state (locals_of
           (read_parquet (valid_counts_only (example_env True example_md 1 0 0 0))
              (example_args example_file None)))))
       = [(0, 10, 7), (0, 10, 7), (0, 10, 7)]
   \<and> map null_count
        (cols (locals_of (read_parquet (valid_counts_only (example_env True example_md 1 0 0 0))
                            (example_args example_file None))))
       = [9, 0, 0]
   \<and> map null_count
        (cols (locals_of (read_parquet (valid_counts_only (example_env True uncompressed_md 1 0 0 0))
                            (example_args example_file None))))
       = [3, 3, 3]"
  by code_simp
subsection \<open>The decompressed-data buffer\<close>











text \<open>
  What the buffer is sized from. The sizing loop of lines 588-600 reads the host array
  \<^verbatim>\<open>page_index\<close>, which holds what its allocation left in it: here records of 7 bytes,
  while the records that the second header pass decoded on the device say 2048 bytes.
\<close>

lemma buffer_sized_from_unfilled_records:
  "map uncompressed_page_size
     (page_index_dev (state (locals_of (header_passes (example_env True example_md 1 0 7 0)
                                          (example_args example_file None)))))
     = [2048, 2048, 2048]
   \<and> map uncompressed_page_size
        (page_index (state (locals_of (header_passes (example_env True example_md 1 0 7 0)
                                         (example_args example_file None)))))
       = [7, 7, 7]
   \<and> allocations [Decompressed_pages]
        (locals_of (read_parquet (example_env True example_md 1 0 7 0)
                      (example_args example_file None)))
       = [Alloc Decompressed_pages 7]"
  by code_simp
subsection \<open>The string dictionary index\<close>

lemma dictionary_sizes_length [simp]: "length (dictionary_sizes md pages off chunks) = length chunks"
  by (induction chunks arbitrary: off) simp_all





















text \<open>
  What the slices are sized from. The loops of lines 691-699 and 706-718 read the
  \<^verbatim>\<open>num_values\<close> of the first page of a chunk from the host array \<^verbatim>\<open>page_index\<close>, which holds
  what its allocation left in it: here 3 values, while the records that the second header
  pass decoded on the device say 10. The two dictionaries get an index of 6 entries.
\<close>

lemma index_sized_from_unfilled_records:
  "map (\<lambda>i. num_values (page_index_dev (state
          (locals_of (header_passes strings_env (example_args example_file None)))) ! i)) [0, 2, 4]
     = [10, 10, 10]
   \<and> map (\<lambda>i. num_values (page_index (state
           (locals_of (allocate_columns strings_env (example_args example_file None)))) ! i)) [0, 2, 4]
       = [3, 3, 3]
   \<and> allocations [Str_dict_index]
           (locals_of (read_parquet strings_env (example_args example_file None))) = [Alloc Str_dict_index 6]
   \<and> map str_dict_index (chunk_desc (state
           (locals_of (read_parquet strings_env (example_args example_file None)))))
       = [Some 0, None, Some 3]"
  by code_simp


end
